theory Spec2Isabelle
  imports Complex_Main "HOL-Library.Sublist"
begin

section \<open>Python strings\<close>

text \<open>
  Python strings are modelled as \<^typ>\<open>string\<close>, a character being a code point below
  256. The substring test \<^verbatim>\<open>a in b\<close> is \<^term>\<open>sublist a b\<close>: \<open>b = ps @ a @ ss\<close> for some
  \<open>ps\<close> and \<open>ss\<close>. \<^verbatim>\<open>str.lower()\<close> moves the capital letters of that range, \<open>A\<close> to \<open>Z\<close>
  (65 to 90) and the accented capitals 192 to 222 without the sign 215, up by 32 and
  leaves every other character as it is.
\<close>

definition lower_char :: "char \<Rightarrow> char" where
  "lower_char c =
     (let n = (of_char c :: nat)
      in if (65 \<le> n \<and> n \<le> 90) \<or> (192 \<le> n \<and> n \<le> 222 \<and> n \<noteq> 215)
         then char_of (n + 32) else c)"

definition lower :: "string \<Rightarrow> string" where
  "lower s = map lower_char s"

section \<open>Address validator\<close>

text \<open>
  \<^verbatim>\<open>validate_solana_contract\<close> (app.py, improved_analysis.py, standalone_test.py and
  mcp_test.py hold the same body).
\<close>

definition valid_chars :: string where
  "valid_chars = ''123456789ABCDEFGHJKLMNPQRSTUVWXYZabcdefghijkmnopqrstuvwxyz''"

definition validate_solana_contract :: "string \<Rightarrow> bool" where
  "validate_solana_contract contract_address =
     (if contract_address = [] then False
      else if length contract_address < 32 \<or> length contract_address > 44 then False
      else list_all (\<lambda>c. c \<in> set valid_chars) contract_address)"

section \<open>Python values\<close>

text \<open>
  \<^verbatim>\<open>d.get(key, default)\<close> on a dictionary whose key may be absent: the field is
  an option, \<open>None\<close> for an absent key.
\<close>

definition dict_get :: "'a option \<Rightarrow> 'a \<Rightarrow> 'a" where
  "dict_get v d = (case v of None \<Rightarrow> d | Some x \<Rightarrow> x)"

text \<open>
  Truth value of \<^verbatim>\<open>d.get(key)\<close> for a string or a dictionary: absent and empty are
  both false.
\<close>

definition truthy :: "'a list option \<Rightarrow> bool" where
  "truthy v = (case v of None \<Rightarrow> False | Some x \<Rightarrow> x \<noteq> [])"

text \<open>An exception is a value of \<open>py_error\<close>, on the left of a sum.\<close>

datatype py_error =
  AttributeError | TypeError | KeyError | IndexError | ZeroDivisionError | OverflowError

text \<open>Sequencing: the first exception ends the evaluation.\<close>

definition and_then :: "'e + 'a \<Rightarrow> ('a \<Rightarrow> 'e + 'b) \<Rightarrow> 'e + 'b" where
  "and_then r f = (case r of Inl e \<Rightarrow> Inl e | Inr x \<Rightarrow> f x)"

text \<open>
  The true division \<^verbatim>\<open>a / b\<close> of two integers. The quotient is rounded to a float, and
  Python raises \<^verbatim>\<open>OverflowError\<close> when the rounded quotient is beyond the largest float,
  that is when its absolute value reaches \<open>2 ^ 1024 - 2 ^ 970\<close>, half a step above
  that float. A quotient within the range is kept as the exact rational.
\<close>

definition float_limit :: rat where
  "float_limit = 2 ^ 1024 - 2 ^ 970"

definition true_divide :: "int \<Rightarrow> int \<Rightarrow> py_error + rat" where
  "true_divide a b =
     (if b = 0 then Inl ZeroDivisionError
      else if float_limit \<le> \<bar>of_int a / of_int b\<bar> then Inl OverflowError
      else Inr (of_int a / of_int b))"

text \<open>\<^verbatim>\<open>range(start, stop, step)\<close> for a positive step (a non-positive one yields nothing here).\<close>

function range_step :: "int \<Rightarrow> int \<Rightarrow> int \<Rightarrow> int list" where
  "range_step i stop step =
     (if 0 < step \<and> i < stop then i # range_step (i + step) stop step else [])"
  by pat_completeness auto
termination
  by (relation "measure (\<lambda>(i, stop, step). nat (stop - i))") auto

declare range_step.simps [simp del]

text \<open>
  The slice \<^verbatim>\<open>s[i:j]\<close>: a negative index counts from the end, and both ends are
  clamped to the string.
\<close>

definition slice_index :: "nat \<Rightarrow> int \<Rightarrow> nat" where
  "slice_index n i = (if i < 0 then nat (max (i + int n) 0) else min (nat i) n)"

definition slice :: "'a list \<Rightarrow> int \<Rightarrow> int \<Rightarrow> 'a list" where
  "slice s i j =
     (let a = slice_index (length s) i; b = slice_index (length s) j
      in take (b - a) (drop a s))"

section \<open>Relevance verifier\<close>

text \<open>
  A candidate mention is the dictionary the search step produces (improved_analysis.py,
  \<^verbatim>\<open>_simulate_realistic_social_search\<close>): the keys the verifier and the aggregator read
  are fields, each absent (\<open>None\<close>) or present. \<^verbatim>\<open>engagement\<close> is a dictionary from
  counter names to integers, kept as an association list.
\<close>

record raw_mention =
  title :: "string option"
  content :: "string option"
  url :: "string option"
  author :: "string option"
  engagement :: "(string \<times> int) list option"

text \<open>The verifier stores the score under the key \<^verbatim>\<open>verification_score\<close> of a retained mention.\<close>

record verified_mention = raw_mention +
  verification_score :: int

definition set_verification_score :: "raw_mention \<Rightarrow> int \<Rightarrow> verified_mention" where
  "set_verification_score result s = raw_mention.extend result \<lparr>verification_score = s\<rparr>"

text \<open>
  The body of the loop of \<^verbatim>\<open>_verify_and_filter_results\<close> up to the threshold test
  (improved_analysis.py, lines 366 to 391): the score of one candidate.
\<close>

definition score_result :: "string \<Rightarrow> string \<Rightarrow> raw_mention \<Rightarrow> int" where
  "score_result contract_address token_symbol result =
     (let text = lower (dict_get (title result) [] @ '' '' @ dict_get (content result) []);
          verification_score = 0;
          verification_score =
            (if list_ex (\<lambda>i. sublist (lower (slice contract_address i (i + 8))) text)
                  (range_step 0 (int (length contract_address) - 7) 4)
             then verification_score + 50 else verification_score);
          verification_score =
            (if token_symbol \<noteq> [] \<and> token_symbol \<noteq> ''UNKNOWN''
             then (if sublist (lower token_symbol) text \<or>
                      sublist (''$'' @ lower token_symbol) text
                   then verification_score + 30 else verification_score)
             else verification_score);
          verification_score =
            (if sublist ''pump'' text \<and> (sublist ''fun'' text \<or> sublist ''solana'' text)
             then verification_score + 20 else verification_score);
          u = dict_get (url result) [];
          verification_score =
            (if sublist ''x.com'' u \<or> sublist ''twitter.com'' u
             then verification_score + 20 else verification_score);
          verification_score =
            (if truthy (engagement result) \<or> truthy (author result)
             then verification_score + 10 else verification_score)
      in verification_score)"

text \<open>
  The loop itself: \<open>verified_results\<close> is the accumulator, a retained candidate is appended
  with its score attached. \<open>token_name\<close> is a parameter the source never reads.
\<close>

fun verify_loop ::
  "verified_mention list \<Rightarrow> raw_mention list \<Rightarrow> string \<Rightarrow> string \<Rightarrow> verified_mention list" where
  "verify_loop verified_results [] contract_address token_symbol = verified_results"
| "verify_loop verified_results (result # results) contract_address token_symbol =
     (let verification_score = score_result contract_address token_symbol result in
      if verification_score \<ge> 70
      then verify_loop (verified_results @ [set_verification_score result verification_score])
             results contract_address token_symbol
      else verify_loop verified_results results contract_address token_symbol)"

definition verify_and_filter_results ::
  "raw_mention list \<Rightarrow> string \<Rightarrow> string \<Rightarrow> string \<Rightarrow> verified_mention list" where
  "verify_and_filter_results results contract_address token_name token_symbol =
     verify_loop [] results contract_address token_symbol"

text \<open>
  The score as a sum of five independent signals over the case-folded title and body. The
  fourth, \<open>domain_signal\<close>, is the test the source makes: \<open>x.com\<close> or \<open>twitter.com\<close>
  somewhere in the URL.
\<close>

definition identifier_signal :: "string \<Rightarrow> string \<Rightarrow> bool" where
  "identifier_signal identifier text =
     (\<exists>k. 4 * k + 8 \<le> length identifier \<and>
          sublist (lower (take 8 (drop (4 * k) identifier))) text)"

definition symbol_signal :: "string \<Rightarrow> string \<Rightarrow> bool" where
  "symbol_signal symbol text =
     (symbol \<noteq> [] \<and> symbol \<noteq> ''UNKNOWN'' \<and>
      (sublist (lower symbol) text \<or> sublist (CHR ''$'' # lower symbol) text))"

definition context_signal :: "string \<Rightarrow> bool" where
  "context_signal text =
     (sublist ''pump'' text \<and> (sublist ''fun'' text \<or> sublist ''solana'' text))"

definition domain_signal :: "raw_mention \<Rightarrow> bool" where
  "domain_signal m =
     (\<exists>u. url m = Some u \<and> (sublist ''x.com'' u \<or> sublist ''twitter.com'' u))"

definition metadata_signal :: "raw_mention \<Rightarrow> bool" where
  "metadata_signal m =
     ((\<exists>e. engagement m = Some e \<and> e \<noteq> []) \<or> (\<exists>a. author m = Some a \<and> a \<noteq> []))"

definition scored_text :: "raw_mention \<Rightarrow> string" where
  "scored_text m =
     lower ((case title m of None \<Rightarrow> [] | Some t \<Rightarrow> t) @ '' '' @
            (case content m of None \<Rightarrow> [] | Some b \<Rightarrow> b))"

definition accumulated_score :: "string \<Rightarrow> string \<Rightarrow> raw_mention \<Rightarrow> int" where
  "accumulated_score identifier symbol m =
     (if identifier_signal identifier (scored_text m) then 50 else 0) +
     (if symbol_signal symbol (scored_text m) then 30 else 0) +
     (if context_signal (scored_text m) then 20 else 0) +
     (if domain_signal m then 20 else 0) +
     (if metadata_signal m then 10 else 0)"

text \<open>
  The fourth signal as the specification words it, and as the comment of line 384 asks
  (\<^verbatim>\<open>Must be from social media platform\<close>): the host of the URL (the text between
  \<open>://\<close> and the next slash) is a target domain or a subdomain of one. The test of lines
  385 to 387 is the substring test of \<open>score_result\<close> instead.
\<close>

fun after_scheme :: "string \<Rightarrow> string" where
  "after_scheme (a # b # c # rest) =
     (if [a, b, c] = ''://'' then rest else after_scheme (b # c # rest))"
| "after_scheme _ = []"

definition url_host :: "string \<Rightarrow> string" where
  "url_host u = takeWhile (\<lambda>c. c \<noteq> CHR ''/'') (after_scheme u)"

definition target_domains :: "string list" where
  "target_domains = [''x.com'', ''twitter.com'']"

definition on_target_domain :: "string \<Rightarrow> bool" where
  "on_target_domain u =
     list_ex (\<lambda>d. url_host u = d \<or> suffix (CHR ''.'' # d) (url_host u)) target_domains"

text \<open>
  The score as the specification words it: the fourth signal read on the host, the other
  four as before.
\<close>

definition claimed_score :: "string \<Rightarrow> string \<Rightarrow> raw_mention \<Rightarrow> int" where
  "claimed_score identifier symbol m =
     (if identifier_signal identifier (scored_text m) then 50 else 0) +
     (if symbol_signal symbol (scored_text m) then 30 else 0) +
     (if context_signal (scored_text m) then 20 else 0) +
     (if on_target_domain (dict_get (url m) []) then 20 else 0) +
     (if metadata_signal m then 10 else 0)"

section \<open>Ranking path of \<^verbatim>\<open>search_x_mentions\<close>\<close>

text \<open>
  standalone_test.py, \<^verbatim>\<open>search_x_mentions\<close>, from the point where the search backend's
  results are collected in \<open>all_results\<close> (line 242 on). A result is an object of the
  backend; \<^verbatim>\<open>getattr(result, 'title', '') or ""\<close> reads an attribute that may be missing
  or \<^verbatim>\<open>None\<close>, both \<open>None\<close> here.
\<close>

record exa_result =
  attr_title :: "string option"
  attr_text :: "string option"
  attr_url :: "string option"

text \<open>\<^verbatim>\<open>getattr(result, 'url', '')\<close>: the URL the pass reads, empty when there is none.\<close>

definition url_of :: "exa_result \<Rightarrow> string" where
  "url_of result = dict_get (attr_url result) []"

text \<open>Lines 243 to 249: the pass that removes duplicates by URL.\<close>

fun dedup_loop :: "string set \<Rightarrow> exa_result list \<Rightarrow> exa_result list \<Rightarrow> exa_result list" where
  "dedup_loop seen_urls unique_results [] = unique_results"
| "dedup_loop seen_urls unique_results (result # all_results) =
     (let u = url_of result in
      if u \<noteq> [] \<and> u \<notin> seen_urls
      then dedup_loop (insert u seen_urls) (unique_results @ [result]) all_results
      else dedup_loop seen_urls unique_results all_results)"

definition crypto_keywords :: "string list" where
  "crypto_keywords = [''pump'', ''moon'', ''solana'', ''dex'', ''trade'', ''buy'', ''sell'',
     ''token'', ''coin'', ''crypto'', ''gem'']"

text \<open>
  Lines 252 to 282: \<^verbatim>\<open>calculate_relevance\<close>, a closure over the contract address, the
  token name and the token symbol. The two \<^verbatim>\<open>for\<close> loops are folds over their lists;
  \<^verbatim>\<open>contract_address[:length]\<close> is \<open>take\<close>.
\<close>

definition result_content :: "exa_result \<Rightarrow> string" where
  "result_content result =
     (let the_title = dict_get (attr_title result) [];
          the_text = dict_get (attr_text result) []
      in lower (the_title @ '' '' @ the_text))"

definition calculate_relevance :: "string \<Rightarrow> string \<Rightarrow> string \<Rightarrow> exa_result \<Rightarrow> int" where
  "calculate_relevance contract_address token_name token_symbol result =
     (let the_content = result_content result;
          score = 0;
          score = (if sublist (lower contract_address) the_content then score + 100 else score);
          score = foldl (\<lambda>score len.
                    if sublist (lower (take (nat len) contract_address)) the_content
                    then score + (50 - (12 - len) * 5) else score) score [12, 8, 6];
          score = (if token_symbol \<noteq> [] \<and> sublist (lower token_symbol) the_content
                   then score + 20 else score);
          score = (if token_name \<noteq> [] \<and> sublist (lower token_name) the_content
                   then score + 15 else score);
          score = foldl (\<lambda>score keyword.
                    if sublist keyword the_content then score + 2 else score)
                    score crypto_keywords
      in score)"

text \<open>
  Lines 243 to 296: duplicates removed, then \<^verbatim>\<open>sort(key=calculate_relevance, reverse=True)\<close>
  (stable, equal keys keep their order: the stable sort on the negated key), then the
  filter on a positive score; the returned dictionary counts the relevant results and
  holds the first ten.
\<close>

record search_outcome =
  outcome_success :: bool
  outcome_total_mentions :: nat
  outcome_results :: "exa_result list"

definition rank_mentions :: "string \<Rightarrow> string \<Rightarrow> string \<Rightarrow> exa_result list \<Rightarrow> search_outcome" where
  "rank_mentions contract_address token_name token_symbol all_results =
     (let unique_results = dedup_loop {} [] all_results;
          unique_results =
            sort_key (\<lambda>r. - calculate_relevance contract_address token_name token_symbol r)
              unique_results;
          relevant_results =
            filter (\<lambda>r. calculate_relevance contract_address token_name token_symbol r > 0)
              unique_results
      in \<lparr>outcome_success = True, outcome_total_mentions = length relevant_results,
          outcome_results = take 10 relevant_results\<rparr>)"

section \<open>Engagement aggregator\<close>

text \<open>
  \<^verbatim>\<open>analyze_verified_social_engagement\<close> (improved_analysis.py, lines 403 to 476).
  Python's integers are \<^typ>\<open>int\<close>. The true division of line 441 makes the score a
  float, or raises \<^verbatim>\<open>OverflowError\<close> when the sum of the counts is too large for one:
  the function returns a summary (\<open>Inr\<close>) or raises (\<open>Inl\<close>). The value of a float is
  kept as the exact rational.
\<close>

text \<open>\<^verbatim>\<open>engagement.get(key, 0)\<close> on the dictionary of counters.\<close>

definition get_count :: "(string \<times> int) list \<Rightarrow> string \<Rightarrow> int" where
  "get_count e k = dict_get (map_of e k) 0"

text \<open>\<^verbatim>\<open>str(n)\<close> for a natural number, as an f-string prints it.\<close>

fun string_of_nat :: "nat \<Rightarrow> string" where
  "string_of_nat n =
     (if n < 10 then [char_of (48 + n)]
      else string_of_nat (n div 10) @ [char_of (48 + n mod 10)])"

declare string_of_nat.simps [simp del]

text \<open>\<^verbatim>\<open>round(x, 1)\<close>: to one decimal, a tie to the even neighbour.\<close>

definition round1 :: "rat \<Rightarrow> rat" where
  "round1 x =
     (let y = x * 10; f = \<lfloor>y\<rfloor>; d = y - of_int f
      in of_int (if d < 1 / 2 then f else if 1 / 2 < d then f + 1
                 else if even f then f else f + 1) / 10)"

record engagement_summary =
  engagement_score :: rat
  notable_accounts :: "string list"
  total_mentions :: nat
  engagement_level :: string
  risk_assessment :: string
  authentic_mentions :: nat
  total_engagement :: "(int \<times> int \<times> int) option"
  analysis_quality :: string

text \<open>
  \<open>total_engagement\<close> holds the likes, retweets and replies; the summary of an empty
  input has no such key. \<open>notable_accounts\<close> is \<^verbatim>\<open>list(set(...))\<close>: the distinct
  authors, in an order Python leaves open (here that of \<open>remdups\<close>).
\<close>

definition notable_patterns :: "string list" where
  "notable_patterns = [''crypto'', ''solana'', ''defi'', ''trader'']"

text \<open>Lines 427 to 437: the loop over the verified mentions, with its four accumulators.\<close>

fun engagement_loop ::
  "int \<Rightarrow> int \<Rightarrow> int \<Rightarrow> string list \<Rightarrow> verified_mention list \<Rightarrow>
     int \<times> int \<times> int \<times> string list" where
  "engagement_loop total_likes total_retweets total_replies notable [] =
     (total_likes, total_retweets, total_replies, notable)"
| "engagement_loop total_likes total_retweets total_replies notable (result # verified_results) =
     (let e = dict_get (engagement result) [];
          total_likes = total_likes + get_count e ''likes'';
          total_retweets = total_retweets + get_count e ''retweets'';
          total_replies = total_replies + get_count e ''replies'';
          a = lower (dict_get (author result) []);
          notable =
            (if list_ex (\<lambda>pattern. sublist pattern a) notable_patterns
             then (if get_count (dict_get (engagement result) []) ''likes'' > 100
                   then notable @ [a] else notable)
             else notable)
      in engagement_loop total_likes total_retweets total_replies notable verified_results)"

definition analyze_verified_social_engagement ::
  "verified_mention list \<Rightarrow> string \<Rightarrow> string \<Rightarrow> py_error + engagement_summary" where
  "analyze_verified_social_engagement verified_results contract_address token_symbol =
     (if verified_results = [] then
        Inr \<lparr>engagement_score = 0, notable_accounts = [], total_mentions = 0,
             engagement_level = ''None'',
             risk_assessment = ''Very High - No Social Media Presence'',
             authentic_mentions = 0, total_engagement = None,
             analysis_quality = ''No verified data available''\<rparr>
      else
        (case engagement_loop 0 0 0 [] verified_results of
           (total_likes, total_retweets, total_replies, notable) \<Rightarrow>
          (let base_score = min (int (length verified_results) * 15) 60 in
           and_then (true_divide (total_likes + total_retweets * 2) 10) (\<lambda>quotient.
          (let engagement_bonus = min quotient (30 :: rat);
               notable_bonus = int (length (remdups notable)) * 10;
               final_score = min (of_int base_score + engagement_bonus + of_int notable_bonus) 100;
               (level, risk_level) =
                 (if final_score \<ge> 80 then (''Very High'', ''Low - Strong Community'')
                  else if final_score \<ge> 60 then (''High'', ''Medium - Good Community'')
                  else if final_score \<ge> 30 then (''Moderate'', ''High - Limited Community'')
                  else if final_score \<ge> 10 then (''Low'', ''Very High - Minimal Interest'')
                  else (''Very Low'', ''Extremely High - No Community''))
           in Inr \<lparr>engagement_score = round1 final_score,
                   notable_accounts = remdups notable,
                   total_mentions = length verified_results,
                   engagement_level = level,
                   risk_assessment = risk_level,
                   authentic_mentions = length verified_results,
                   total_engagement = Some (total_likes, total_retweets, total_replies),
                   analysis_quality =
                     ''High - '' @ string_of_nat (length verified_results) @
                     '' verified mentions analyzed''\<rparr>)))))"

text \<open>
  The score as the specification words it: breadth, depth and authority, capped at 100,
  over the sums of the likes and reposts and the distinct notable authors.
\<close>

definition likes_of :: "verified_mention \<Rightarrow> int" where
  "likes_of m = (case engagement m of None \<Rightarrow> 0 | Some e \<Rightarrow> get_count e ''likes'')"

definition reposts_of :: "verified_mention \<Rightarrow> int" where
  "reposts_of m = (case engagement m of None \<Rightarrow> 0 | Some e \<Rightarrow> get_count e ''retweets'')"

definition replies_of :: "verified_mention \<Rightarrow> int" where
  "replies_of m = (case engagement m of None \<Rightarrow> 0 | Some e \<Rightarrow> get_count e ''replies'')"

definition author_handle :: "verified_mention \<Rightarrow> string" where
  "author_handle m = lower (case author m of None \<Rightarrow> [] | Some a \<Rightarrow> a)"

definition is_notable :: "verified_mention \<Rightarrow> bool" where
  "is_notable m =
     ((\<exists>pattern \<in> set notable_patterns. sublist pattern (author_handle m)) \<and> likes_of m > 100)"

definition bounded_engagement_score :: "verified_mention list \<Rightarrow> rat" where
  "bounded_engagement_score verified =
     min (of_int (min (int (length verified) * 15) 60) +
          min (of_int (sum_list (map likes_of verified) + 2 * sum_list (map reposts_of verified)) / 10) 30 +
          of_int (10 * int (card (author_handle ` {m \<in> set verified. is_notable m}))))
         100"

section \<open>Recommendation scorer\<close>

text \<open>
  \<^verbatim>\<open>generate_accurate_investment_recommendation\<close> (improved_analysis.py, lines 478 to
  574). The market data is the dictionary of \<^verbatim>\<open>get_comprehensive_price_data\<close>; a field
  holds what \<^verbatim>\<open>str()\<close> prints for the value under the key, \<open>None\<close> for an absent key.
\<close>

record price_data =
  price_usd :: "string option"
  market_cap :: "string option"
  liquidity :: "string option"
  volume_24h :: "string option"
  price_change_24h :: "string option"
  dex :: "string option"
  price_success :: bool
  price_fallback :: bool
  price_source :: "string option"

text \<open>\<^verbatim>\<open>_create_fallback_price_data\<close> (lines 210 to 222).\<close>

definition create_fallback_price_data :: price_data where
  "create_fallback_price_data =
     \<lparr>price_usd = Some ''Unknown'', market_cap = Some ''Unknown'',
      liquidity = Some ''Unknown'', volume_24h = Some ''Unknown'',
      price_change_24h = Some ''Unknown'', dex = Some ''Unknown'',
      price_success = False, price_fallback = True, price_source = Some ''Fallback''\<rparr>"

text \<open>
  The lines the scorer appends to \<open>reasons\<close>, one constructor for each template of the
  source; the leading pictogram and the formatting of the numbers are left out:
  \<^item> \<open>No_verified_mentions\<close>: \<^verbatim>\<open>No verified social media mentions found\<close>
  \<^item> \<open>Strong_social_presence n\<close>, \<open>Moderate_social_presence n\<close>, \<open>Weak_social_presence n\<close>:
    \<^verbatim>\<open>Strong social presence (n verified mentions)\<close> and so on
  \<^item> \<open>Many_notable_accounts n\<close>: \<^verbatim>\<open>n notable accounts discussing\<close>;
    \<open>Some_notable_accounts n\<close>: \<^verbatim>\<open>n notable account(s) discussing\<close>;
    \<open>No_notable_accounts\<close>: \<^verbatim>\<open>No notable accounts discussing\<close>
  \<^item> \<open>Strong_liquidity x\<close>, \<open>Moderate_liquidity x\<close>, \<open>Low_liquidity x\<close>:
    \<^verbatim>\<open>Strong liquidity ($x)\<close> and so on; \<open>Unknown_liquidity\<close>: \<^verbatim>\<open>Unknown liquidity data\<close>
  \<^item> \<open>High_volume x\<close>, \<open>Moderate_volume x\<close>, \<open>Low_volume x\<close>:
    \<^verbatim>\<open>High trading volume ($x/24h)\<close> and so on; \<open>Unknown_volume\<close>: \<^verbatim>\<open>Unknown volume data\<close>
  \<^item> \<open>Unable_to_analyze\<close>: \<^verbatim>\<open>Unable to analyze market data\<close>
\<close>

datatype reason =
    No_verified_mentions
  | Strong_social_presence nat
  | Moderate_social_presence nat
  | Weak_social_presence nat
  | Many_notable_accounts nat
  | Some_notable_accounts nat
  | No_notable_accounts
  | Strong_liquidity rat
  | Moderate_liquidity rat
  | Low_liquidity rat
  | Unknown_liquidity
  | High_volume rat
  | Moderate_volume rat
  | Low_volume rat
  | Unknown_volume
  | Unable_to_analyze

text \<open>
  The five labels: \<^verbatim>\<open>STRONG BUY - High Confidence\<close>, \<^verbatim>\<open>MODERATE BUY - Medium Confidence\<close>,
  \<^verbatim>\<open>CAUTION - Low Confidence\<close>, \<^verbatim>\<open>AVOID - Very Low Confidence\<close> and
  \<^verbatim>\<open>STRONG AVOID - No Confidence\<close>, each behind a pictogram in the source.
\<close>

datatype label = STRONG_BUY | MODERATE_BUY | CAUTION | AVOID | STRONG_AVOID

record recommendation =
  rec_recommendation :: label
  rec_score :: int
  rec_risk_level :: string
  rec_reasons :: "reason list"
  rec_analysis_quality :: string
  rec_confidence :: string

text \<open>
  \<^verbatim>\<open>s.replace(c, "")\<close> for a single character, and \<^verbatim>\<open>s.isdigit()\<close>: below 256 the
  digits are \<open>0\<close> to \<open>9\<close> and the superscripts two, three and one (178, 179, 185).
  \<^verbatim>\<open>float\<close> reads the first ten only.
\<close>

definition remove_char :: "char \<Rightarrow> string \<Rightarrow> string" where
  "remove_char c s = filter (\<lambda>d. d \<noteq> c) s"

definition is_ascii_digit :: "char \<Rightarrow> bool" where
  "is_ascii_digit c = (48 \<le> (of_char c :: nat) \<and> (of_char c :: nat) \<le> 57)"

definition is_digit :: "char \<Rightarrow> bool" where
  "is_digit c = (is_ascii_digit c \<or> (of_char c :: nat) \<in> {178, 179, 185})"

definition isdigit :: "string \<Rightarrow> bool" where
  "isdigit s = (s \<noteq> [] \<and> list_all is_digit s)"

text \<open>
  \<^verbatim>\<open>float(s)\<close> on the strings that reach it, made of digits and dots with a digit among
  them: the decimal value when there is at most one dot and every digit is one of \<open>0\<close> to
  \<open>9\<close>, and \<^verbatim>\<open>ValueError\<close> (\<open>None\<close>) otherwise. The value is the exact rational, where
  the float is the double nearest to it.
\<close>

definition digits_value :: "string \<Rightarrow> nat" where
  "digits_value s = foldl (\<lambda>n c. 10 * n + ((of_char c :: nat) - 48)) 0 s"

definition py_float :: "string \<Rightarrow> rat option" where
  "py_float s =
     (if length (filter (\<lambda>c. c = CHR ''.'') s) \<le> 1 \<and>
         list_all (\<lambda>c. is_ascii_digit c \<or> c = CHR ''.'') s \<and> list_ex is_ascii_digit s
      then (let whole = takeWhile (\<lambda>c. c \<noteq> CHR ''.'') s;
                frac = drop 1 (dropWhile (\<lambda>c. c \<noteq> CHR ''.'') s)
            in Some (of_nat (digits_value (whole @ frac)) / 10 ^ length frac))
      else None)"

text \<open>
  The \<^verbatim>\<open>try\<close> block of lines 516 to 548 in two parts. Each takes the score and the
  reasons so far; \<open>Inl\<close> is a \<^verbatim>\<open>ValueError\<close> raised by \<^verbatim>\<open>float\<close>, with the state at that
  point, and \<open>Inr\<close> the state after the part.
\<close>

definition liquidity_analysis ::
  "price_data \<Rightarrow> int \<times> reason list \<Rightarrow> (int \<times> reason list) + (int \<times> reason list)" where
  "liquidity_analysis price = (\<lambda>(score, reasons).
     (let liquidity_str = dict_get (liquidity price) ''0'' in
      if isdigit (remove_char CHR '','' (remove_char CHR ''.'' liquidity_str)) then
        (case py_float (remove_char CHR '','' liquidity_str) of
           None \<Rightarrow> Inl (score, reasons)
         | Some amount \<Rightarrow>
             if amount \<ge> 100000 then Inr (score + 20, reasons @ [Strong_liquidity amount])
             else if amount \<ge> 25000 then Inr (score + 10, reasons @ [Moderate_liquidity amount])
             else Inr (score, reasons @ [Low_liquidity amount]))
      else Inr (score, reasons @ [Unknown_liquidity])))"

definition volume_analysis ::
  "price_data \<Rightarrow> int \<times> reason list \<Rightarrow> (int \<times> reason list) + (int \<times> reason list)" where
  "volume_analysis price = (\<lambda>(score, reasons).
     (let volume_str = dict_get (volume_24h price) ''0'' in
      if isdigit (remove_char CHR '','' (remove_char CHR ''.'' volume_str)) then
        (case py_float (remove_char CHR '','' volume_str) of
           None \<Rightarrow> Inl (score, reasons)
         | Some amount \<Rightarrow>
             if amount \<ge> 100000 then Inr (score + 20, reasons @ [High_volume amount])
             else if amount \<ge> 25000 then Inr (score + 10, reasons @ [Moderate_volume amount])
             else Inr (score, reasons @ [Low_volume amount]))
      else Inr (score, reasons @ [Unknown_volume])))"

text \<open>The \<^verbatim>\<open>except (ValueError, TypeError)\<close> clause appends its line to the state reached.\<close>

definition market_analysis :: "price_data \<Rightarrow> int \<times> reason list \<Rightarrow> int \<times> reason list" where
  "market_analysis price st =
     (case liquidity_analysis price st of
        Inl (score, reasons) \<Rightarrow> (score, reasons @ [Unable_to_analyze])
      | Inr st' \<Rightarrow>
          (case volume_analysis price st' of
             Inl (score, reasons) \<Rightarrow> (score, reasons @ [Unable_to_analyze])
           | Inr st'' \<Rightarrow> st''))"

definition social_analysis :: "engagement_summary \<Rightarrow> int \<times> reason list \<Rightarrow> int \<times> reason list" where
  "social_analysis social = (\<lambda>(score, reasons).
     (let social_score = engagement_score social;
          mentions = authentic_mentions social
      in if mentions = 0 then (score + 0, reasons @ [No_verified_mentions])
         else if social_score \<ge> 70 then (score + 40, reasons @ [Strong_social_presence mentions])
         else if social_score \<ge> 40 then (score + 25, reasons @ [Moderate_social_presence mentions])
         else (score + 10, reasons @ [Weak_social_presence mentions])))"

definition notable_analysis :: "engagement_summary \<Rightarrow> int \<times> reason list \<Rightarrow> int \<times> reason list" where
  "notable_analysis social = (\<lambda>(score, reasons).
     (let notable = notable_accounts social
      in if length notable \<ge> 3 then (score + 20, reasons @ [Many_notable_accounts (length notable)])
         else if length notable \<ge> 1 then (score + 10, reasons @ [Some_notable_accounts (length notable)])
         else (score, reasons @ [No_notable_accounts])))"

text \<open>The whole function; \<open>token_data\<close> is a parameter the source never reads.\<close>

definition generate_accurate_investment_recommendation ::
  "'t \<Rightarrow> price_data \<Rightarrow> engagement_summary \<Rightarrow> recommendation" where
  "generate_accurate_investment_recommendation token_data price social =
     (case market_analysis price (notable_analysis social (social_analysis social (0, []))) of
        (score, reasons) \<Rightarrow>
          (let (recommended, risk_level) =
                 (if score \<ge> 85 then (STRONG_BUY, ''Low'')
                  else if score \<ge> 65 then (MODERATE_BUY, ''Medium'')
                  else if score \<ge> 45 then (CAUTION, ''High'')
                  else if score \<ge> 25 then (AVOID, ''Very High'')
                  else (STRONG_AVOID, ''Extremely High''))
           in \<lparr>rec_recommendation = recommended,
               rec_score = score,
               rec_risk_level = risk_level,
               rec_reasons = reasons,
               rec_analysis_quality = ''High - Based on verified data'',
               rec_confidence =
                 (if score \<ge> 65 then ''High'' else if score \<ge> 45 then ''Medium'' else ''Low'')\<rparr>))"

section \<open>Source resolver\<close>

text \<open>
  \<^verbatim>\<open>get_token_info_from_multiple_sources\<close> and its parsers (improved_analysis.py, lines
  35 to 134). A decoded JSON document, and the dictionary a parser returns, is a value of
  \<open>json\<close>; an object is an association list.
\<close>

datatype json =
    JNull
  | JBool bool
  | JNum rat
  | JStr string
  | JArr "json list"
  | JObj "(string \<times> json) list"

text \<open>The truth value of a Python object.\<close>

fun py_truthy :: "json \<Rightarrow> bool" where
  "py_truthy JNull = False"
| "py_truthy (JBool b) = b"
| "py_truthy (JNum n) = (n \<noteq> 0)"
| "py_truthy (JStr s) = (s \<noteq> [])"
| "py_truthy (JArr xs) = (xs \<noteq> [])"
| "py_truthy (JObj kvs) = (kvs \<noteq> [])"

text \<open>\<^verbatim>\<open>d.get(key, default)\<close>: only a dictionary has the method.\<close>

fun py_get :: "json \<Rightarrow> string \<Rightarrow> json \<Rightarrow> py_error + json" where
  "py_get (JObj kvs) k d = Inr (dict_get (map_of kvs k) d)"
| "py_get _ k d = Inl AttributeError"

text \<open>\<^verbatim>\<open>len(x)\<close>, \<^verbatim>\<open>d[key]\<close> for a string key and \<^verbatim>\<open>x[0]\<close>.\<close>

fun py_len :: "json \<Rightarrow> py_error + nat" where
  "py_len (JStr s) = Inr (length s)"
| "py_len (JArr xs) = Inr (length xs)"
| "py_len (JObj kvs) = Inr (length kvs)"
| "py_len _ = Inl TypeError"

fun py_item :: "json \<Rightarrow> string \<Rightarrow> py_error + json" where
  "py_item (JObj kvs) k = (case map_of kvs k of None \<Rightarrow> Inl KeyError | Some v \<Rightarrow> Inr v)"
| "py_item _ k = Inl TypeError"

fun py_first :: "json \<Rightarrow> py_error + json" where
  "py_first (JArr []) = Inl IndexError"
| "py_first (JArr (x # xs)) = Inr x"
| "py_first (JStr []) = Inl IndexError"
| "py_first (JStr (c # cs)) = Inr (JStr [c])"
| "py_first (JObj kvs) = Inl KeyError"
| "py_first _ = Inl TypeError"

definition placeholder_name :: "string \<Rightarrow> json" where
  "placeholder_name contract_address = JStr (''Token '' @ take 8 contract_address @ ''...'')"

text \<open>\<^verbatim>\<open>_parse_dexscreener_token_info\<close> (lines 79 to 94).\<close>

definition parse_dexscreener_token_info :: "json \<Rightarrow> string \<Rightarrow> py_error + json" where
  "parse_dexscreener_token_info data contract_address =
     and_then (py_get data ''pairs'' JNull) (\<lambda>pairs.
     if \<not> py_truthy pairs then Inr (JObj [(''success'', JBool False)])
     else
     and_then (and_then (py_item data ''pairs'') py_len) (\<lambda>n.
     if n = 0 then Inr (JObj [(''success'', JBool False)])
     else
     and_then (and_then (py_item data ''pairs'') py_first) (\<lambda>pair.
     and_then (py_get pair ''baseToken'' (JObj [])) (\<lambda>base_token.
     and_then (py_get base_token ''name'' (placeholder_name contract_address)) (\<lambda>the_name.
     and_then (py_get base_token ''symbol'' (JStr ''UNKNOWN'')) (\<lambda>the_symbol.
     and_then (and_then (py_get pair ''info'' (JObj [])) (\<lambda>info. py_get info ''decimals'' (JNum 9)))
       (\<lambda>decimals.
     and_then (and_then (py_get pair ''info'' (JObj []))
                 (\<lambda>info. py_get info ''totalSupply'' (JStr ''Unknown'')))
       (\<lambda>supply.
     Inr (JObj [(''name'', the_name), (''symbol'', the_symbol), (''decimals'', decimals),
                (''supply'', supply), (''success'', JBool True),
                (''source'', JStr ''DexScreener'')])))))))))"

text \<open>\<^verbatim>\<open>_parse_jupiter_token_info\<close> (lines 96 to 110).\<close>

definition parse_jupiter_token_info :: "json \<Rightarrow> string \<Rightarrow> py_error + json" where
  "parse_jupiter_token_info data contract_address =
     and_then (py_get data ''data'' JNull) (\<lambda>d.
     if \<not> py_truthy d then Inr (JObj [(''success'', JBool False)])
     else
     and_then (and_then (py_item data ''data'') (\<lambda>d. py_get d contract_address JNull)) (\<lambda>t.
     if \<not> py_truthy t then Inr (JObj [(''success'', JBool False)])
     else
     and_then (and_then (py_item data ''data'') (\<lambda>d. py_item d contract_address)) (\<lambda>token_data.
     and_then (py_get token_data ''name'' (placeholder_name contract_address)) (\<lambda>the_name.
     and_then (py_get token_data ''symbol'' (JStr ''UNKNOWN'')) (\<lambda>the_symbol.
     and_then (py_get token_data ''decimals'' (JNum 9)) (\<lambda>decimals.
     Inr (JObj [(''name'', the_name), (''symbol'', the_symbol), (''decimals'', decimals),
                (''supply'', JStr ''Unknown''), (''success'', JBool True),
                (''source'', JStr ''Jupiter'')])))))))"

text \<open>
  \<^verbatim>\<open>_parse_solscan_token_info\<close> (lines 112 to 121). The default of a \<^verbatim>\<open>get\<close> is
  evaluated before the call, so the inner \<^verbatim>\<open>get\<close> comes first.
\<close>

definition parse_solscan_token_info :: "json \<Rightarrow> string \<Rightarrow> py_error + json" where
  "parse_solscan_token_info data contract_address =
     and_then (and_then (py_get data ''symbol'' (placeholder_name contract_address))
                 (\<lambda>d. py_get data ''name'' d)) (\<lambda>the_name.
     and_then (py_get data ''symbol'' (JStr ''UNKNOWN'')) (\<lambda>the_symbol.
     and_then (py_get data ''decimals'' (JNum 9)) (\<lambda>decimals.
     and_then (and_then (py_get data ''totalSupply'' (JStr ''Unknown''))
                 (\<lambda>d. py_get data ''supply'' d)) (\<lambda>supply.
     Inr (JObj [(''name'', the_name), (''symbol'', the_symbol), (''decimals'', decimals),
                (''supply'', supply), (''success'', JBool True),
                (''source'', JStr ''Solscan'')])))))"

text \<open>\<^verbatim>\<open>_create_fallback_token_info\<close> (lines 123 to 134).\<close>

definition create_fallback_token_info :: "string \<Rightarrow> json" where
  "create_fallback_token_info contract_address =
     JObj [(''name'', JStr (''Token '' @ take 8 contract_address @ ''...'')),
           (''symbol'', JStr ''UNKNOWN''),
           (''decimals'', JNum 9),
           (''supply'', JStr ''Unknown''),
           (''success'', JBool False),
           (''fallback'', JBool True),
           (''source'', JStr ''Fallback'')]"

text \<open>
  An entry of the list \<open>sources\<close>, and what \<^verbatim>\<open>requests.get\<close> does for a URL: it raises
  (timeout, connection error), or answers with a status code and a body that
  \<^verbatim>\<open>response.json()\<close> decodes (\<open>Some\<close>) or rejects with an exception (\<open>None\<close>).
\<close>

record source =
  source_name :: string
  source_url :: string
  source_parser :: "json \<Rightarrow> string \<Rightarrow> py_error + json"

datatype fetch = Transport_error | Response int "json option"

definition token_sources :: "string \<Rightarrow> source list" where
  "token_sources contract_address =
     [\<lparr>source_name = ''DexScreener'',
       source_url = ''https://api.dexscreener.com/latest/dex/tokens/'' @ contract_address,
       source_parser = parse_dexscreener_token_info\<rparr>,
      \<lparr>source_name = ''Jupiter API'',
       source_url = ''https://price.jup.ag/v4/price?ids='' @ contract_address,
       source_parser = parse_jupiter_token_info\<rparr>,
      \<lparr>source_name = ''Solscan'',
       source_url = ''https://public-api.solscan.io/token/meta?tokenAddress='' @ contract_address,
       source_parser = parse_solscan_token_info\<rparr>]"

text \<open>
  The loop of lines 58 to 74 over a list of sources. \<open>http\<close> is the network, \<open>requested\<close>
  the URLs fetched so far, in order. Every exception inside the \<^verbatim>\<open>try\<close> goes on with the
  next source; the result is the first dictionary whose \<^verbatim>\<open>success\<close> is true, or \<open>None\<close>
  when the list is exhausted.
\<close>

fun resolve_loop ::
  "(string \<Rightarrow> fetch) \<Rightarrow> string \<Rightarrow> source list \<Rightarrow> string list \<Rightarrow> json option \<times> string list" where
  "resolve_loop http contract_address [] requested = (None, requested)"
| "resolve_loop http contract_address (src # sources) requested =
     (let requested = requested @ [source_url src] in
      case http (source_url src) of
        Transport_error \<Rightarrow> resolve_loop http contract_address sources requested
      | Response status_code body \<Rightarrow>
          if status_code = 200 then
            (case body of
               None \<Rightarrow> resolve_loop http contract_address sources requested
             | Some data \<Rightarrow>
                 (case source_parser src data contract_address of
                    Inl e \<Rightarrow> resolve_loop http contract_address sources requested
                  | Inr token_info \<Rightarrow>
                      (case py_get token_info ''success'' JNull of
                         Inl e \<Rightarrow> resolve_loop http contract_address sources requested
                       | Inr flag \<Rightarrow>
                           if py_truthy flag then (Some token_info, requested)
                           else resolve_loop http contract_address sources requested)))
          else resolve_loop http contract_address sources requested)"

definition get_token_info_from_multiple_sources ::
  "(string \<Rightarrow> fetch) \<Rightarrow> string \<Rightarrow> json \<times> string list" where
  "get_token_info_from_multiple_sources http contract_address =
     (case resolve_loop http contract_address (token_sources contract_address) [] of
        (Some token_info, requested) \<Rightarrow> (token_info, requested)
      | (None, requested) \<Rightarrow> (create_fallback_token_info contract_address, requested))"

text \<open>
  What it means for one provider to succeed: the fetch answers 200 with a body that decodes,
  and the parser returns a dictionary whose \<^verbatim>\<open>success\<close> is true. Every other outcome
  (transport failure, another status, a body that does not decode, an exception in the
  parser, \<^verbatim>\<open>success\<close> false) is a failure.
\<close>

definition provider_result :: "(string \<Rightarrow> fetch) \<Rightarrow> string \<Rightarrow> source \<Rightarrow> json option" where
  "provider_result http contract_address src =
     (case http (source_url src) of
        Response status_code (Some data) \<Rightarrow>
          (if status_code = 200 then
             (case source_parser src data contract_address of
                Inr token_info \<Rightarrow>
                  (case py_get token_info ''success'' JNull of
                     Inr flag \<Rightarrow> if py_truthy flag then Some token_info else None
                   | Inl e \<Rightarrow> None)
              | Inl e \<Rightarrow> None)
           else None)
      | _ \<Rightarrow> None)"

section \<open>Sample inputs\<close>

text \<open>
  Mentions of the shape the search step yields for the contract of the repository's test
  run, \<open>GBUxQFRXQjSPjkxymAUKPfbUbSpRY8Ui7az1HCxtpump\<close>.
\<close>

definition test_contract :: string where
  "test_contract = ''GBUxQFRXQjSPjkxymAUKPfbUbSpRY8Ui7az1HCxtpump''"

definition launch_post :: raw_mention where
  "launch_post = \<lparr>title = Some ''New token $BONK'',
     content = Some ''pump.fun GBUxQFRXQjSP...'',
     url = Some ''https://x.com/crypto_trader/status/1'',
     author = Some ''@crypto_trader_123'',
     engagement = Some [(''likes'', 45), (''retweets'', 12), (''replies'', 8)]\<rparr>"

definition trading_post :: raw_mention where
  "trading_post = \<lparr>title = Some ''Trading $PEPE'',
     content = Some ''on pump.fun'',
     url = Some ''https://x.com/solana_degen/status/2'',
     author = None, engagement = None\<rparr>"

definition netflix_post :: raw_mention where
  "netflix_post = \<lparr>title = Some ''$PEPE'', content = Some ''pump fun'',
     url = Some ''https://netflix.com/title/1'', author = None, engagement = None\<rparr>"

text \<open>Results of the search backend: two of them share a URL, one has none.\<close>

definition pump_result :: exa_result where
  "pump_result = \<lparr>attr_title = Some ''pump'', attr_text = None,
     attr_url = Some ''https://x.com/a/1''\<rparr>"

definition gem_result :: exa_result where
  "gem_result = \<lparr>attr_title = Some ''GBUxQFRXQjSP gem'', attr_text = Some ''buy'',
     attr_url = Some ''https://x.com/a/2''\<rparr>"

definition repost_result :: exa_result where
  "repost_result = \<lparr>attr_title = Some ''other'', attr_text = Some ''moon'',
     attr_url = Some ''https://x.com/a/1''\<rparr>"

definition no_url_result :: exa_result where
  "no_url_result = \<lparr>attr_title = Some ''gem'', attr_text = Some ''here'',
     attr_url = None\<rparr>"

text \<open>A mention whose like count is beyond the range of a float, and the empty summary.\<close>

definition viral_post :: verified_mention where
  "viral_post = set_verification_score
     \<lparr>title = Some ''$PEPE'', content = Some ''pump fun'',
      url = Some ''https://x.com/a/3'', author = None,
      engagement = Some [(''likes'', 10 ^ 400)]\<rparr> 70"

definition no_mentions_summary :: engagement_summary where
  "no_mentions_summary =
     \<lparr>engagement_score = 0, notable_accounts = [], total_mentions = 0,
      engagement_level = ''None'',
      risk_assessment = ''Very High - No Social Media Presence'',
      authentic_mentions = 0, total_engagement = None,
      analysis_quality = ''No verified data available''\<rparr>"

definition verified_pair :: "verified_mention list" where
  "verified_pair = [set_verification_score launch_post 130, set_verification_score trading_post 70]"

definition backend_results :: "exa_result list" where
  "backend_results = [pump_result, gem_result, repost_result, no_url_result, gem_result]"

text \<open>Two networks: one where nothing answers, one where only the second provider does.\<close>

definition dead_network :: "string \<Rightarrow> fetch" where
  "dead_network u = Transport_error"

definition jupiter_network :: "string \<Rightarrow> fetch" where
  "jupiter_network u =
     (if u = ''https://price.jup.ag/v4/price?ids='' @ test_contract
      then Response 200 (Some (JObj [(''data'',
             JObj [(test_contract, JObj [(''id'', JStr test_contract), (''price'', JNum 1)])])]))
      else if u = ''https://api.dexscreener.com/latest/dex/tokens/'' @ test_contract
      then Response 200 (Some (JObj [(''pairs'', JNull)]))
      else Response 503 None)"

text \<open>The dictionary the second parser returns on that network.\<close>

definition jupiter_info :: json where
  "jupiter_info =
     JObj [(''name'', JStr ''Token GBUxQFRX...''), (''symbol'', JStr ''UNKNOWN''),
           (''decimals'', JNum 9), (''supply'', JStr ''Unknown''),
           (''success'', JBool True), (''source'', JStr ''Jupiter'')]"

section \<open>Theorems\<close>

subsection \<open>Address validator\<close>

text \<open>
  Claim C9. For every string \<open>s\<close>, the validator returns false when \<open>s\<close> is empty, shorter
  than 32 or longer than 44 characters, or holds a character outside the base58 alphabet
  \<open>123456789ABCDEFGHJKLMNPQRSTUVWXYZabcdefghijkmnopqrstuvwxyz\<close>, and returns true for
  every string of length in [32,44] made of that alphabet only. The alphabet has 58
  distinct symbols.
\<close>

theorem validate_solana_contract_spec:
  "(s = [] \<or> length s < 32 \<or> length s > 44 \<or>
      (\<exists>c \<in> set s. c \<notin> set ''123456789ABCDEFGHJKLMNPQRSTUVWXYZabcdefghijkmnopqrstuvwxyz'')
      \<longrightarrow> \<not> validate_solana_contract s) \<and>
   (32 \<le> length s \<and> length s \<le> 44 \<and>
      (\<forall>c \<in> set s. c \<in> set ''123456789ABCDEFGHJKLMNPQRSTUVWXYZabcdefghijkmnopqrstuvwxyz'')
      \<longrightarrow> validate_solana_contract s) \<and>
   length valid_chars = 58 \<and> distinct valid_chars"
proof -
  have lit: "''123456789ABCDEFGHJKLMNPQRSTUVWXYZabcdefghijkmnopqrstuvwxyz'' = valid_chars"
    by (simp only: valid_chars_def)
  have len: "length valid_chars = 58"
    by (simp add: valid_chars_def)
  have dist: "distinct valid_chars"
    by (simp add: valid_chars_def)
  show ?thesis
    unfolding lit using len dist
    by (auto simp: validate_solana_contract_def list_all_iff)
qed

theorem validate_solana_contract_spec_witness:
  "validate_solana_contract ''GBUxQFRXQjSPjkxymAUKPfbUbSpRY8Ui7az1HCxtpump'' \<and>
   \<not> validate_solana_contract ''abc'' \<and>
   \<not> validate_solana_contract ''0BUxQFRXQjSPjkxymAUKPfbUbSpRY8Ui7az1HCxtpump''"
  using validate_solana_contract_spec [of "''GBUxQFRXQjSPjkxymAUKPfbUbSpRY8Ui7az1HCxtpump''"]
    validate_solana_contract_spec [of "''abc''"]
    validate_solana_contract_spec [of "''0BUxQFRXQjSPjkxymAUKPfbUbSpRY8Ui7az1HCxtpump''"]
  by simp

subsection \<open>Relevance verifier\<close>

lemma range_step_set: "0 < step \<Longrightarrow> set (range_step i stop step) = {j. \<exists>k::nat. j = i + int k * step \<and> j < stop}"
proof (induction i stop step rule: range_step.induct)
  case (1 i stop step)
  show ?case
  proof (cases "i < stop")
    case True
    have "set (range_step i stop step) = insert i (set (range_step (i + step) stop step))"
      using True 1(2) by (subst range_step.simps) simp
    also have "\<dots> = insert i {j. \<exists>k::nat. j = i + step + int k * step \<and> j < stop}"
      using 1 True by simp
    also have "\<dots> = {j. \<exists>k::nat. j = i + int k * step \<and> j < stop}" (is "?L = ?R")
    proof (intro set_eqI iffI)
      fix j assume "j \<in> ?L"
      then consider "j = i" | k where "j = i + step + int k * step" "j < stop" by auto
      then show "j \<in> ?R"
      proof cases
        case 1 then show ?thesis using True by (auto intro: exI[of _ 0])
      next
        case 2 then show ?thesis by (auto intro!: exI[of _ "Suc k"] simp: algebra_simps)
      qed
    next
      fix j assume "j \<in> ?R"
      then obtain k where k: "j = i + int k * step" "j < stop" by auto
      show "j \<in> ?L"
      proof (cases k)
        case 0 then show ?thesis using k by simp
      next
        case (Suc k') then show ?thesis using k by (auto simp: algebra_simps)
      qed
    qed
    finally show ?thesis .
  next
    case False
    have "range_step i stop step = []" using False by (subst range_step.simps) simp
    moreover have "{j. \<exists>k::nat. j = i + int k * step \<and> j < stop} = {}"
    proof -
      have "\<not> i + int k * step < stop" for k :: nat
      proof -
        have "i \<le> i + int k * step" using 1(2) by simp
        then show ?thesis using False by linarith
      qed
      then show ?thesis by blast
    qed
    ultimately show ?thesis by simp
  qed
qed


lemma slice_window:
  "n + 8 \<le> length s \<Longrightarrow> slice s (int n) (int n + 8) = take 8 (drop n s)"
  by (simp add: slice_def slice_index_def Let_def min_def nat_add_distrib)

lemma stride_windows:
  "list_ex P (range_step 0 (int n - 7) 4) \<longleftrightarrow> (\<exists>k::nat. 4 * k + 8 \<le> n \<and> P (int (4 * k)))"
proof -
  have "list_ex P (range_step 0 (int n - 7) 4) \<longleftrightarrow> (\<exists>j \<in> set (range_step 0 (int n - 7) 4). P j)"
    by (simp add: list_ex_iff)
  also have "\<dots> \<longleftrightarrow> (\<exists>k::nat. int k * 4 < int n - 7 \<and> P (int k * 4))"
    by (subst range_step_set) auto
  also have "\<dots> \<longleftrightarrow> (\<exists>k::nat. 4 * k + 8 \<le> n \<and> P (int (4 * k)))"
  proof -
    have "(int k * 4 < int n - 7 \<and> P (int k * 4)) = (4 * k + 8 \<le> n \<and> P (int (4 * k)))" for k
    proof -
      have a: "(int (4 * k) < int n - 7) = (4 * k + 8 \<le> n)" by linarith
      have b: "int k * 4 = int (4 * k)" by simp
      show ?thesis by (simp only: b a)
    qed
    then show ?thesis by (rule arg_cong [where f = Ex, OF ext])
  qed
  finally show ?thesis .
qed


lemma identifier_signal_code [code]:
  "identifier_signal identifier text =
     list_ex (\<lambda>i. sublist (lower (slice identifier i (i + 8))) text)
       (range_step 0 (int (length identifier) - 7) 4)"
proof -
  have "(4 * k + 8 \<le> length identifier \<and>
           sublist (lower (slice identifier (int (4 * k)) (int (4 * k) + 8))) text) =
        (4 * k + 8 \<le> length identifier \<and>
           sublist (lower (take 8 (drop (4 * k) identifier))) text)" for k
    using slice_window [of "4 * k" "identifier"] by auto
  then show ?thesis
    unfolding identifier_signal_def stride_windows by simp
qed

lemma domain_signal_code [code]:
  "domain_signal m =
     (sublist ''x.com'' (dict_get (url m) []) \<or> sublist ''twitter.com'' (dict_get (url m) []))"
  by (cases "url m") (simp_all add: domain_signal_def dict_get_def)

lemma metadata_signal_code [code]:
  "metadata_signal m = (truthy (engagement m) \<or> truthy (author m))"
  by (cases "engagement m"; cases "author m") (simp_all add: metadata_signal_def truthy_def)

lemma scored_text_code:
  "scored_text m = lower (dict_get (title m) [] @ '' '' @ dict_get (content m) [])"
  by (simp add: scored_text_def dict_get_def)

lemma accumulate_signals:
  "(let text = T; v = (0::int);
        v = (if a text then v + 50 else v);
        v = (if k then (if b text then v + 30 else v) else v);
        v = (if c text then v + 20 else v);
        u = U;
        v = (if d u then v + 20 else v);
        v = (if e then v + 10 else v)
    in v) =
   (if a T then 50 else 0) + (if k \<and> b T then 30 else 0) + (if c T then 20 else 0) +
   (if d U then 20 else 0) + (if e then 10 else 0)"
  by (simp add: Let_def)

lemma score_result_accumulated:
  "score_result identifier symbol m = accumulated_score identifier symbol m"
proof -
  have "accumulated_score identifier symbol m =
     (if list_ex (\<lambda>i. sublist (lower (slice identifier i (i + 8))) (scored_text m))
          (range_step 0 (int (length identifier) - 7) 4) then 50 else 0) +
     (if (symbol \<noteq> [] \<and> symbol \<noteq> ''UNKNOWN'') \<and>
         (sublist (lower symbol) (scored_text m) \<or>
          sublist (''$'' @ lower symbol) (scored_text m)) then 30 else 0) +
     (if sublist ''pump'' (scored_text m) \<and>
         (sublist ''fun'' (scored_text m) \<or> sublist ''solana'' (scored_text m)) then 20 else 0) +
     (if sublist ''x.com'' (dict_get (url m) []) \<or> sublist ''twitter.com'' (dict_get (url m) [])
      then 20 else 0) +
     (if truthy (engagement m) \<or> truthy (author m) then 10 else 0)"
    unfolding accumulated_score_def identifier_signal_code domain_signal_code
      metadata_signal_code symbol_signal_def context_signal_def
    by (simp only: conj_assoc append_Cons append_Nil)
  also have "\<dots> = score_result identifier symbol m"
    unfolding score_result_def scored_text_code
    by (rule accumulate_signals [symmetric])
  finally show ?thesis by simp
qed

lemma verify_loop_append:
  "verify_loop acc results identifier symbol =
     acc @ map (\<lambda>m. set_verification_score m (score_result identifier symbol m))
             (filter (\<lambda>m. score_result identifier symbol m \<ge> 70) results)"
  by (induction results arbitrary: acc) (simp_all add: Let_def)

lemma set_verification_score_sel:
  "verification_score (set_verification_score m s) = s"
  "raw_mention.truncate (set_verification_score m s) = m"
  by (simp_all add: set_verification_score_def raw_mention.extend_def raw_mention.truncate_def)

text \<open>
  What the loop computes, for every candidate list, identifier and symbol: it retains, in
  their order, exactly the candidates whose score is at least 70, each with the score
  attached as \<open>verification_score\<close> and otherwise unchanged, and the score is the sum of
  the five signals as the source tests them.
\<close>

lemma verify_retains_exactly_threshold:
  "verify_and_filter_results results identifier token_name symbol =
     map (\<lambda>m. set_verification_score m (accumulated_score identifier symbol m))
       (filter (\<lambda>m. accumulated_score identifier symbol m \<ge> 70) results) \<and>
   verification_score (set_verification_score m s) = s \<and>
   raw_mention.truncate (set_verification_score m s) = m"
  by (simp add: verify_and_filter_results_def verify_loop_append score_result_accumulated
      set_verification_score_sel)

text \<open>
  Claim C1. The verifier is to retain exactly the candidates whose accumulated score is at
  least 70, the score counting +20 when the URL of the candidate is on a target domain; the
  comment of the source asks the same (\<^verbatim>\<open>Must be from social media platform\<close>). The code
  tests instead whether the URL contains \<open>x.com\<close> or \<open>twitter.com\<close> as a substring, and
  the two differ on a mention whose URL is on \<open>netflix.com\<close>: its host is no target
  domain and its score by the claim is 30 + 20 = 50, below the threshold, while the code
  counts the URL, scores 70 and retains the mention.
\<close>

theorem url_off_domain_counts:
  "url netflix_post = Some ''https://netflix.com/title/1'' \<and>
   url_host ''https://netflix.com/title/1'' = ''netflix.com'' \<and>
   \<not> on_target_domain ''https://netflix.com/title/1'' \<and>
   claimed_score test_contract ''PEPE'' netflix_post = 50 \<and>
   score_result test_contract ''PEPE'' netflix_post = 70 \<and>
   verify_and_filter_results [netflix_post] test_contract [] ''PEPE'' =
     [set_verification_score netflix_post 70]"
  by code_simp

text \<open>
  Claim C2, as the code has it. Every mention the verifier retains carries a
  \<open>verification_score\<close> that is an integer between 70 and 130: the five signals add up
  to 130 and nothing clamps the sum to 100.
\<close>

theorem verified_score_range:
  "v \<in> set (verify_and_filter_results results identifier token_name symbol) \<Longrightarrow>
     70 \<le> verification_score v \<and> verification_score v \<le> 130"
proof -
  assume "v \<in> set (verify_and_filter_results results identifier token_name symbol)"
  then obtain m where v: "v = set_verification_score m (accumulated_score identifier symbol m)"
    and ge: "accumulated_score identifier symbol m \<ge> 70"
    by (auto simp: verify_and_filter_results_def verify_loop_append score_result_accumulated)
  have "accumulated_score identifier symbol m \<le> 130"
    by (simp add: accumulated_score_def)
  with v ge show ?thesis by (simp add: set_verification_score_sel)
qed

theorem verified_score_range_witness:
  "set_verification_score trading_post 70 \<in>
     set (verify_and_filter_results [trading_post] test_contract [] ''PEPE'') \<and>
   70 \<le> verification_score (set_verification_score trading_post 70) \<and>
   verification_score (set_verification_score trading_post 70) \<le> 130"
proof -
  have "verify_and_filter_results [trading_post] test_contract [] ''PEPE'' =
      [set_verification_score trading_post 70]"
    by code_simp
  then have h: "set_verification_score trading_post 70 \<in>
      set (verify_and_filter_results [trading_post] test_contract [] ''PEPE'')"
    by simp
  show ?thesis using h verified_score_range [OF h] by simp
qed

text \<open>
  The claim as stated (a score between 0 and 100) fails on a mention that raises all five
  signals: it is retained with the score 130.
\<close>

theorem verified_score_above_100:
  "map verification_score
     (verify_and_filter_results [launch_post] test_contract ''Bonk'' ''BONK'') = [130] \<and>
   \<not> (130 :: int) \<le> 100"
  by code_simp

text \<open>
  Claim C10. There is a candidate whose case-folded title and body contain no 8-character
  substring of the (valid) identifier at all and which the verifier retains all the same:
  a known symbol that is present (+30), the keyword pair (+20) and a URL on a target domain
  (+20) give exactly 70, with no engagement or author metadata.
\<close>

theorem identifier_match_not_necessary:
  "\<exists>m identifier symbol.
     validate_solana_contract identifier \<and>
     \<not> (\<exists>k. k + 8 \<le> length identifier \<and>
            sublist (lower (take 8 (drop k identifier))) (scored_text m)) \<and>
     \<not> identifier_signal identifier (scored_text m) \<and>
     symbol_signal symbol (scored_text m) \<and>
     context_signal (scored_text m) \<and>
     domain_signal m \<and>
     \<not> metadata_signal m \<and>
     accumulated_score identifier symbol m = 70 \<and>
     verify_and_filter_results [m] identifier [] symbol = [set_verification_score m 70]"
proof -
  have len: "length test_contract = 44"
    by (simp add: test_contract_def)
  have all: "list_all (\<lambda>k. \<not> sublist (lower (take 8 (drop k test_contract)))
      (scored_text trading_post)) [0..<37]"
    by code_simp
  have no_window: "\<not> (\<exists>k. k + 8 \<le> length test_contract \<and>
      sublist (lower (take 8 (drop k test_contract))) (scored_text trading_post))"
  proof
    assume "\<exists>k. k + 8 \<le> length test_contract \<and>
      sublist (lower (take 8 (drop k test_contract))) (scored_text trading_post)"
    then obtain k where k: "k + 8 \<le> length test_contract"
      and sub: "sublist (lower (take 8 (drop k test_contract))) (scored_text trading_post)"
      by blast
    from k len have "k \<in> set [0..<37]" by simp
    with all have "\<not> sublist (lower (take 8 (drop k test_contract))) (scored_text trading_post)"
      unfolding list_all_iff by blast
    with sub show False by contradiction
  qed
  have valid: "validate_solana_contract test_contract"
    by code_simp
  have no_id: "\<not> identifier_signal test_contract (scored_text trading_post)"
    by code_simp
  have sym: "symbol_signal ''PEPE'' (scored_text trading_post)"
    by code_simp
  have ctx: "context_signal (scored_text trading_post)"
    by code_simp
  have dom: "domain_signal trading_post"
    by code_simp
  have no_meta: "\<not> metadata_signal trading_post"
    by code_simp
  have score: "accumulated_score test_contract ''PEPE'' trading_post = 70"
    by code_simp
  have kept: "verify_and_filter_results [trading_post] test_contract [] ''PEPE'' =
      [set_verification_score trading_post 70]"
    by code_simp
  show ?thesis
    using valid no_window no_id sym ctx dom no_meta score kept by blast
qed

subsection \<open>Ranking path\<close>

lemma dedup_loop_acc:
  "dedup_loop seen acc xs = acc @ dedup_loop seen [] xs"
proof (induction xs arbitrary: seen acc)
  case Nil
  then show ?case by simp
next
  case (Cons x xs)
  show ?case
    using Cons.IH [of "insert (url_of x) seen" "acc @ [x]"]
      Cons.IH [of "insert (url_of x) seen" "[x]"]
      Cons.IH [of seen acc]
    by (simp add: Let_def)
qed

lemma dedup_loop_Cons:
  "dedup_loop seen [] (x # xs) =
     (if url_of x \<noteq> [] \<and> url_of x \<notin> seen then x # dedup_loop (insert (url_of x) seen) [] xs
      else dedup_loop seen [] xs)"
  using dedup_loop_acc [of "insert (url_of x) seen" "[x]" xs]
  by (simp add: Let_def)





lemma dedup_loop_set: "set (dedup_loop seen [] xs) \<subseteq> set xs"
  by (induction xs arbitrary: seen)
    (auto simp: dedup_loop_Cons simp del: dedup_loop.simps(2) split: if_splits)

lemma keyword_fold:
  "foldl (\<lambda>score keyword. if P keyword then score + 2 else score) (s :: int) ks =
     s + 2 * int (length (filter P ks))"
  by (induction ks arbitrary: s) simp_all

lemma calculate_relevance_sum:
  "calculate_relevance contract_address token_name token_symbol result =
     (if sublist (lower contract_address) (result_content result) then 100 else 0) +
     (if sublist (lower (take 12 contract_address)) (result_content result) then 50 else 0) +
     (if sublist (lower (take 8 contract_address)) (result_content result) then 30 else 0) +
     (if sublist (lower (take 6 contract_address)) (result_content result) then 20 else 0) +
     (if token_symbol \<noteq> [] \<and> sublist (lower token_symbol) (result_content result)
      then 20 else 0) +
     (if token_name \<noteq> [] \<and> sublist (lower token_name) (result_content result)
      then 15 else 0) +
     2 * int (length (filter (\<lambda>keyword. sublist keyword (result_content result))
                       crypto_keywords))"
  unfolding calculate_relevance_def keyword_fold Let_def
  by simp

lemma ranked_sorted:
  "sorted_wrt (\<lambda>a b. f b \<le> (f a :: int))
     (take n (filter P (sort_key (\<lambda>r. - f r) xs)))"
proof -
  have "sorted (map (\<lambda>r. - f r) (sort_key (\<lambda>r. - f r) xs))"
    by (rule sorted_sort_key)
  then have "sorted (map (\<lambda>r. - f r) (filter P (sort_key (\<lambda>r. - f r) xs)))"
    by (rule sorted_filter)
  then have "sorted_wrt (\<lambda>a b. f b \<le> f a) (filter P (sort_key (\<lambda>r. - f r) xs))"
    by (simp add: sorted_map)
  then show ?thesis
    by (rule sorted_wrt_take)
qed

lemma ranked_set:
  "set (take n (filter P (sort_key k xs))) \<subseteq> {x \<in> set xs. P x}"
  using set_take_subset [of n "filter P (sort_key k xs)"] by auto







text \<open>
  Claim C4, as the code has it. The ranking function gives +100 for the full identifier
  in the case-folded title and text, +50, +30 and +20 for its prefixes of 12, 8 and 6
  characters, +20 for the symbol, +15 for the name and two points (not one) for each
  generic crypto keyword present. The results without duplicates are sorted by this score,
  highest first, those with a positive score are counted, and the first ten are returned.
\<close>

theorem ranking_relevance_weights:
  "calculate_relevance contract_address token_name token_symbol result =
     (if sublist (lower contract_address) (result_content result) then 100 else 0) +
     (if sublist (lower (take 12 contract_address)) (result_content result) then 50 else 0) +
     (if sublist (lower (take 8 contract_address)) (result_content result) then 30 else 0) +
     (if sublist (lower (take 6 contract_address)) (result_content result) then 20 else 0) +
     (if token_symbol \<noteq> [] \<and> sublist (lower token_symbol) (result_content result)
      then 20 else 0) +
     (if token_name \<noteq> [] \<and> sublist (lower token_name) (result_content result)
      then 15 else 0) +
     2 * int (length (filter (\<lambda>keyword. sublist keyword (result_content result))
                       crypto_keywords)) \<and>
   outcome_results (rank_mentions contract_address token_name token_symbol all_results) =
     take 10 (filter (\<lambda>r. 0 < calculate_relevance contract_address token_name token_symbol r)
       (sort_key (\<lambda>r. - calculate_relevance contract_address token_name token_symbol r)
          (dedup_loop {} [] all_results))) \<and>
   outcome_total_mentions (rank_mentions contract_address token_name token_symbol all_results) =
     length (filter (\<lambda>r. 0 < calculate_relevance contract_address token_name token_symbol r)
       (dedup_loop {} [] all_results)) \<and>
   sorted_wrt (\<lambda>a b. calculate_relevance contract_address token_name token_symbol b \<le>
                    calculate_relevance contract_address token_name token_symbol a)
     (outcome_results (rank_mentions contract_address token_name token_symbol all_results)) \<and>
   list_all (\<lambda>r. 0 < calculate_relevance contract_address token_name token_symbol r)
     (outcome_results (rank_mentions contract_address token_name token_symbol all_results))"
proof (intro conjI)
  show "calculate_relevance contract_address token_name token_symbol result =
     (if sublist (lower contract_address) (result_content result) then 100 else 0) +
     (if sublist (lower (take 12 contract_address)) (result_content result) then 50 else 0) +
     (if sublist (lower (take 8 contract_address)) (result_content result) then 30 else 0) +
     (if sublist (lower (take 6 contract_address)) (result_content result) then 20 else 0) +
     (if token_symbol \<noteq> [] \<and> sublist (lower token_symbol) (result_content result)
      then 20 else 0) +
     (if token_name \<noteq> [] \<and> sublist (lower token_name) (result_content result)
      then 15 else 0) +
     2 * int (length (filter (\<lambda>keyword. sublist keyword (result_content result))
                       crypto_keywords))"
    by (rule calculate_relevance_sum)
  show "outcome_results (rank_mentions contract_address token_name token_symbol all_results) =
     take 10 (filter (\<lambda>r. 0 < calculate_relevance contract_address token_name token_symbol r)
       (sort_key (\<lambda>r. - calculate_relevance contract_address token_name token_symbol r)
          (dedup_loop {} [] all_results)))"
    by (simp add: rank_mentions_def Let_def)
  show "outcome_total_mentions
      (rank_mentions contract_address token_name token_symbol all_results) =
     length (filter (\<lambda>r. 0 < calculate_relevance contract_address token_name token_symbol r)
       (dedup_loop {} [] all_results))"
    by (simp add: rank_mentions_def Let_def filter_sort)
  show "sorted_wrt (\<lambda>a b. calculate_relevance contract_address token_name token_symbol b \<le>
                    calculate_relevance contract_address token_name token_symbol a)
     (outcome_results (rank_mentions contract_address token_name token_symbol all_results))"
    unfolding rank_mentions_def Let_def by (simp add: ranked_sorted)
  show "list_all (\<lambda>r. 0 < calculate_relevance contract_address token_name token_symbol r)
     (outcome_results (rank_mentions contract_address token_name token_symbol all_results))"
    unfolding rank_mentions_def Let_def list_all_iff
    using ranked_set by fastforce
qed

theorem ranking_relevance_weights_witness:
  "calculate_relevance test_contract [] [] gem_result = 104 \<and>
   outcome_results (rank_mentions test_contract [] [] backend_results) =
     [gem_result, pump_result] \<and>
   sorted_wrt (\<lambda>a b. calculate_relevance test_contract [] [] b \<le>
                    calculate_relevance test_contract [] [] a)
     (outcome_results (rank_mentions test_contract [] [] backend_results))"
proof -
  have a: "calculate_relevance test_contract [] [] gem_result = 104"
    by code_simp
  have p: "calculate_relevance test_contract [] [] pump_result = 2"
    by code_simp
  have d: "dedup_loop {} [] backend_results = [pump_result, gem_result]"
    by code_simp
  have b: "outcome_results (rank_mentions test_contract [] [] backend_results) =
      [gem_result, pump_result]"
    by (simp add: rank_mentions_def a p d)
  have c: "sorted_wrt (\<lambda>a b. calculate_relevance test_contract [] [] b \<le>
                    calculate_relevance test_contract [] [] a)
     (outcome_results (rank_mentions test_contract [] [] backend_results))"
    using ranking_relevance_weights [of test_contract "[]" "[]" gem_result backend_results]
    by blast
  show ?thesis using a b c by blast
qed

text \<open>
  The claim as stated (one point per keyword) fails on a result whose text holds the one
  keyword \<open>pump\<close> and nothing else that scores: its score is 2.
\<close>

theorem keyword_scores_two_points:
  "calculate_relevance test_contract [] [] pump_result = 2 \<and>
   filter (\<lambda>keyword. sublist keyword (result_content pump_result)) crypto_keywords = [''pump'']"
  by code_simp

subsection \<open>Engagement aggregator\<close>

lemma counts_of_engagement:
  "get_count (dict_get (engagement m) []) ''likes'' = likes_of m"
  "get_count (dict_get (engagement m) []) ''retweets'' = reposts_of m"
  "get_count (dict_get (engagement m) []) ''replies'' = replies_of m"
  by (cases "engagement m"; simp add: likes_of_def reposts_of_def replies_of_def
      get_count_def dict_get_def)+

lemma author_handle_get: "lower (dict_get (author m) []) = author_handle m"
  by (simp add: author_handle_def dict_get_def)

lemma engagement_loop_sums:
  "engagement_loop l r p n xs =
     (l + sum_list (map likes_of xs), r + sum_list (map reposts_of xs),
      p + sum_list (map replies_of xs), n @ map author_handle (filter is_notable xs))"
proof (induction xs arbitrary: l r p n)
  case Nil
  then show ?case by simp
next
  case (Cons x xs)
  have notable: "is_notable x \<longleftrightarrow>
      list_ex (\<lambda>pattern. sublist pattern (author_handle x)) notable_patterns \<and> likes_of x > 100"
    by (simp add: is_notable_def list_ex_iff)
  show ?case
    by (simp add: Cons.IH Let_def counts_of_engagement author_handle_get notable)
qed

lemma distinct_notable_count:
  "length (remdups (map author_handle (filter is_notable xs))) =
     card (author_handle ` {m \<in> set xs. is_notable m})"
proof -
  have "set (map author_handle (filter is_notable xs)) =
      author_handle ` {m \<in> set xs. is_notable m}"
    by auto
  then show ?thesis
    by (metis length_remdups_card_conv)
qed

lemma round1_tenths: "round1 (of_int k / 10) = of_int k / 10"
  by (simp add: round1_def Let_def)

lemma score_tenths:
  fixes b q c :: int
  shows "\<exists>k. min (of_int b + min (of_int q / 10) (30 :: rat) + of_int c) 100 = of_int k / 10"
proof -
  have a: "of_int b + of_int q / 10 + of_int c = (of_int (10 * b + q + 10 * c) :: rat) / 10"
    by simp
  have b: "of_int b + 30 + of_int c = (of_int (10 * b + 300 + 10 * c) :: rat) / 10"
    by simp
  have c: "(100 :: rat) = of_int 1000 / 10"
    by simp
  consider "of_int b + of_int q / 10 + of_int c \<le> (100 :: rat)" "of_int q / 10 \<le> (30 :: rat)"
    | "\<not> of_int b + of_int q / 10 + of_int c \<le> (100 :: rat)" "of_int q / 10 \<le> (30 :: rat)"
    | "of_int b + 30 + of_int c \<le> (100 :: rat)" "\<not> of_int q / 10 \<le> (30 :: rat)"
    | "\<not> of_int b + 30 + of_int c \<le> (100 :: rat)" "\<not> of_int q / 10 \<le> (30 :: rat)"
    by blast
  then show ?thesis
  proof cases
    case 1
    then have "min (of_int b + min (of_int q / 10) (30 :: rat) + of_int c) 100 =
        of_int b + of_int q / 10 + of_int c"
      by (simp only: min_def if_True)
    from this a have "min (of_int b + min (of_int q / 10) (30 :: rat) + of_int c) 100 = of_int (10 * b + q + 10 * c) / 10"
      by (rule trans)
    then show ?thesis by (rule exI)
  next
    case 2
    then have "min (of_int b + min (of_int q / 10) (30 :: rat) + of_int c) 100 = 100"
      by (simp only: min_def if_True if_False)
    from this c have "min (of_int b + min (of_int q / 10) (30 :: rat) + of_int c) 100 = of_int 1000 / 10"
      by (rule trans)
    then show ?thesis by (rule exI)
  next
    case 3
    then have "min (of_int b + min (of_int q / 10) (30 :: rat) + of_int c) 100 =
        of_int b + 30 + of_int c"
      by (simp only: min_def if_True if_False)
    from this b have "min (of_int b + min (of_int q / 10) (30 :: rat) + of_int c) 100 = of_int (10 * b + 300 + 10 * c) / 10"
      by (rule trans)
    then show ?thesis by (rule exI)
  next
    case 4
    then have "min (of_int b + min (of_int q / 10) (30 :: rat) + of_int c) 100 = 100"
      by (simp only: min_def if_True if_False)
    from this c have "min (of_int b + min (of_int q / 10) (30 :: rat) + of_int c) 100 = of_int 1000 / 10"
      by (rule trans)
    then show ?thesis by (rule exI)
  qed
qed

lemma true_divide_in_range:
  "b \<noteq> 0 \<Longrightarrow> \<bar>of_int a / of_int b\<bar> < float_limit \<Longrightarrow>
     true_divide a b = Inr (of_int a / of_int b)"
  by (simp add: true_divide_def)

lemma true_divide_overflow:
  "b \<noteq> 0 \<Longrightarrow> float_limit \<le> \<bar>of_int a / of_int b\<bar> \<Longrightarrow> true_divide a b = Inl OverflowError"
  by (simp add: true_divide_def)

lemma analyze_returns:
  assumes "verified \<noteq> []"
    and "\<bar>of_int (sum_list (map likes_of verified) + 2 * sum_list (map reposts_of verified)) / 10\<bar>
           < float_limit"
  shows "\<exists>s. analyze_verified_social_engagement verified contract_address token_symbol = Inr s \<and>
           engagement_score s = bounded_engagement_score verified"
proof -
  obtain k where k: "bounded_engagement_score verified = of_int k / 10"
    unfolding bounded_engagement_score_def using score_tenths by blast
  have q: "true_divide (sum_list (map likes_of verified) + 2 * sum_list (map reposts_of verified)) 10 =
      Inr (of_int (sum_list (map likes_of verified) + 2 * sum_list (map reposts_of verified)) / 10)"
    using assms(2) true_divide_in_range
      [of 10 "sum_list (map likes_of verified) + 2 * sum_list (map reposts_of verified)"]
    by simp
  have "\<exists>s. analyze_verified_social_engagement verified contract_address token_symbol = Inr s \<and>
      engagement_score s = round1 (bounded_engagement_score verified)"
    using assms(1)
    by (simp add: analyze_verified_social_engagement_def engagement_loop_sums Let_def q
        and_then_def bounded_engagement_score_def distinct_notable_count mult.commute
        split: prod.splits)
  then show ?thesis
    by (simp add: k round1_tenths)
qed

lemma analyze_overflow:
  assumes "verified \<noteq> []"
    and "float_limit \<le>
           \<bar>of_int (sum_list (map likes_of verified) + 2 * sum_list (map reposts_of verified)) / 10\<bar>"
  shows "analyze_verified_social_engagement verified contract_address token_symbol =
           Inl OverflowError"
proof -
  have q: "true_divide (sum_list (map likes_of verified) + 2 * sum_list (map reposts_of verified)) 10 =
      Inl OverflowError"
    using assms(2) true_divide_overflow
      [of 10 "sum_list (map likes_of verified) + 2 * sum_list (map reposts_of verified)"]
    by simp
  show ?thesis
    using assms(1)
    by (simp add: analyze_verified_social_engagement_def engagement_loop_sums Let_def q
        and_then_def mult.commute split: prod.splits)
qed

lemma viral_post_counts:
  "likes_of viral_post = 10 ^ 400" "reposts_of viral_post = 0"
  by (simp_all add: viral_post_def set_verification_score_def raw_mention.extend_def
      likes_of_def reposts_of_def get_count_def dict_get_def del: power_numeral)

lemma beyond_float_limit:
  "float_limit \<le> \<bar>of_int (10 ^ 400 + 2 * 0) / 10\<bar>"
proof -
  have a: "(2::rat) ^ 1024 \<le> 2 ^ 1197" by (rule power_increasing) simp_all
  have "(2::rat) ^ 1197 = (2 ^ 3) ^ 399" by (simp only: power_mult [symmetric]) simp
  also have "\<dots> = 8 ^ 399" by simp
  also have "\<dots> \<le> (10::rat) ^ 399" by (rule power_mono) simp_all
  finally have b: "(2::rat) ^ 1197 \<le> 10 ^ 399" .
  have c: "(of_int (10 ^ 400 + 2 * 0) :: rat) / 10 = 10 ^ 399"
  proof -
    have "(10::rat) ^ 400 = 10 * 10 ^ 399" by (simp only: power_Suc [symmetric]) simp
    then show ?thesis by (simp del: power_numeral)
  qed
  have d: "float_limit \<le> 2 ^ 1024" by (simp add: float_limit_def del: power_numeral)
  have e: "\<bar>(10::rat) ^ 399\<bar> = 10 ^ 399" by (simp del: power_numeral)
  note d
  also note a
  also note b
  finally show ?thesis unfolding c e .
qed

lemma bounded_engagement_score_le: "bounded_engagement_score verified \<le> 100"
  by (simp add: bounded_engagement_score_def)

lemma bounded_engagement_score_ge:
  assumes "\<forall>m \<in> set verified. 0 \<le> likes_of m \<and> 0 \<le> reposts_of m"
  shows "0 \<le> bounded_engagement_score verified"
proof -
  have "0 \<le> sum_list (map likes_of verified)" "0 \<le> sum_list (map reposts_of verified)"
    using assms by (auto intro!: sum_list_nonneg)
  then have "(0 :: rat) \<le> of_int (sum_list (map likes_of verified) + 2 * sum_list (map reposts_of verified)) / 10"
    by simp
  then show ?thesis
    unfolding bounded_engagement_score_def by (simp add: min_def)
qed

text \<open>
  Claim C5, as the code has it. On the empty list the aggregator returns the zero summary:
  score 0, level \<open>None\<close>, risk \<open>Very High - No Social Media Presence\<close>. On a non-empty
  list whose quotient \<open>(likes + 2 * reposts) / 10\<close> is within the range of a float (its
  absolute value below \<open>2 ^ 1024 - 2 ^ 970\<close>) it returns a summary whose score is the sum of
  \<open>min (count * 15) 60\<close>, \<open>min ((likes + 2 * reposts) / 10) 30\<close> and 10 for each distinct
  notable account, capped at 100 (rounding to one decimal leaves it as it is); the score is
  at most 100, and at least 0 when no like or repost count is negative. On a non-empty list
  whose quotient is beyond that range the division raises \<open>OverflowError\<close> and no summary
  is returned.
\<close>

theorem engagement_score_bounded:
  "analyze_verified_social_engagement [] contract_address token_symbol =
     Inr \<lparr>engagement_score = 0, notable_accounts = [], total_mentions = 0,
          engagement_level = ''None'',
          risk_assessment = ''Very High - No Social Media Presence'',
          authentic_mentions = 0, total_engagement = None,
          analysis_quality = ''No verified data available''\<rparr> \<and>
   (verified \<noteq> [] \<and>
    \<bar>of_int (sum_list (map likes_of verified) + 2 * sum_list (map reposts_of verified)) / 10\<bar>
      < float_limit \<longrightarrow>
      (\<exists>s. analyze_verified_social_engagement verified contract_address token_symbol = Inr s \<and>
           engagement_score s = bounded_engagement_score verified \<and>
           engagement_score s \<le> 100)) \<and>
   (verified \<noteq> [] \<and> (\<forall>m \<in> set verified. 0 \<le> likes_of m \<and> 0 \<le> reposts_of m) \<and>
    of_int (sum_list (map likes_of verified) + 2 * sum_list (map reposts_of verified)) / 10
      < float_limit \<longrightarrow>
      (\<exists>s. analyze_verified_social_engagement verified contract_address token_symbol = Inr s \<and>
           engagement_score s = bounded_engagement_score verified \<and>
           0 \<le> engagement_score s \<and> engagement_score s \<le> 100)) \<and>
   (verified \<noteq> [] \<and>
    float_limit \<le>
      \<bar>of_int (sum_list (map likes_of verified) + 2 * sum_list (map reposts_of verified)) / 10\<bar>
      \<longrightarrow>
      analyze_verified_social_engagement verified contract_address token_symbol =
        Inl OverflowError)"
proof (intro conjI impI)
  show "analyze_verified_social_engagement [] contract_address token_symbol =
     Inr \<lparr>engagement_score = 0, notable_accounts = [], total_mentions = 0,
          engagement_level = ''None'',
          risk_assessment = ''Very High - No Social Media Presence'',
          authentic_mentions = 0, total_engagement = None,
          analysis_quality = ''No verified data available''\<rparr>"
    by (simp add: analyze_verified_social_engagement_def)
next
  assume "verified \<noteq> [] \<and>
    \<bar>of_int (sum_list (map likes_of verified) + 2 * sum_list (map reposts_of verified)) / 10\<bar>
      < float_limit"
  then obtain s where
    "analyze_verified_social_engagement verified contract_address token_symbol = Inr s"
    "engagement_score s = bounded_engagement_score verified"
    using analyze_returns [of verified contract_address token_symbol] by blast
  then show "\<exists>s. analyze_verified_social_engagement verified contract_address token_symbol = Inr s \<and>
           engagement_score s = bounded_engagement_score verified \<and>
           engagement_score s \<le> 100"
    using bounded_engagement_score_le [of verified] by simp
next
  assume h: "verified \<noteq> [] \<and> (\<forall>m \<in> set verified. 0 \<le> likes_of m \<and> 0 \<le> reposts_of m) \<and>
    of_int (sum_list (map likes_of verified) + 2 * sum_list (map reposts_of verified)) / 10
      < float_limit"
  have "0 \<le> sum_list (map likes_of verified)" "0 \<le> sum_list (map reposts_of verified)"
    using h by (auto intro!: sum_list_nonneg)
  then have "(0 :: rat) \<le>
      of_int (sum_list (map likes_of verified) + 2 * sum_list (map reposts_of verified)) / 10"
    by simp
  then have "\<bar>of_int (sum_list (map likes_of verified) +
      2 * sum_list (map reposts_of verified)) / 10\<bar> < float_limit"
    using h by (simp only: abs_of_nonneg)
  then obtain s where
    "analyze_verified_social_engagement verified contract_address token_symbol = Inr s"
    "engagement_score s = bounded_engagement_score verified"
    using h analyze_returns [of verified contract_address token_symbol] by blast
  then show "\<exists>s. analyze_verified_social_engagement verified contract_address token_symbol = Inr s \<and>
           engagement_score s = bounded_engagement_score verified \<and>
           0 \<le> engagement_score s \<and> engagement_score s \<le> 100"
    using h bounded_engagement_score_le [of verified] bounded_engagement_score_ge [of verified]
    by simp
next
  assume "verified \<noteq> [] \<and>
    float_limit \<le>
      \<bar>of_int (sum_list (map likes_of verified) + 2 * sum_list (map reposts_of verified)) / 10\<bar>"
  then show "analyze_verified_social_engagement verified contract_address token_symbol =
      Inl OverflowError"
    using analyze_overflow [of verified contract_address token_symbol] by blast
qed

theorem engagement_score_bounded_witness:
  "verified_pair \<noteq> [] \<and>
   list_all (\<lambda>m. 0 \<le> likes_of m \<and> 0 \<le> reposts_of m) verified_pair \<and>
   sum_list (map likes_of verified_pair) + 2 * sum_list (map reposts_of verified_pair) = 69 \<and>
   (69 :: rat) / 10 < float_limit \<and>
   (\<exists>s. analyze_verified_social_engagement verified_pair test_contract [] = Inr s \<and>
        engagement_score s = 369 / 10 \<and> 0 \<le> engagement_score s \<and> engagement_score s \<le> 100)"
proof -
  have ne: "verified_pair \<noteq> []"
    by (simp add: verified_pair_def)
  have nn: "list_all (\<lambda>m. 0 \<le> likes_of m \<and> 0 \<le> reposts_of m) verified_pair"
    by code_simp
  then have nn': "\<forall>m \<in> set verified_pair. 0 \<le> likes_of m \<and> 0 \<le> reposts_of m"
    by (simp add: list_all_iff)
  have t: "sum_list (map likes_of verified_pair) + 2 * sum_list (map reposts_of verified_pair) = 69"
    by code_simp
  have l: "(69 :: rat) / 10 < float_limit"
    by (simp add: float_limit_def)
  have v: "bounded_engagement_score verified_pair = 369 / 10"
    by code_simp
  show ?thesis
    using engagement_score_bounded [of test_contract "[]" verified_pair] ne nn nn' t l v
    by simp
qed

text \<open>
  The claim as stated (a score for every non-empty list with non-negative counts) fails on
  one mention with \<open>10 ^ 400\<close> likes: the division of line 441 raises \<open>OverflowError\<close>.
\<close>

theorem engagement_score_overflow:
  "likes_of viral_post = 10 ^ 400 \<and> reposts_of viral_post = 0 \<and>
   analyze_verified_social_engagement [viral_post] test_contract [] = Inl OverflowError"
  using analyze_overflow [of "[viral_post]" test_contract "[]"] beyond_float_limit
  by (simp add: viral_post_counts del: power_numeral)

subsection \<open>Recommendation scorer\<close>

text \<open>
  Claim C6. When the engagement summary counts no verified mention and no notable account
  and neither the liquidity nor the volume of the market data passes the digit test (as for
  the fallback market data, whose fields are \<open>Unknown\<close>), the scorer returns a complete
  recommendation: score 0, label STRONG AVOID, risk \<open>Extremely High\<close>, confidence \<open>Low\<close>,
  and the reasons, in order, no verified mentions, no notable accounts, unknown liquidity
  and unknown volume. The token metadata plays no part.
\<close>

theorem total_failure_recommendation:
  assumes "authentic_mentions social = 0"
    and "notable_accounts social = []"
    and "\<not> isdigit (remove_char CHR '','' (remove_char CHR ''.''
           (dict_get (liquidity price) ''0'')))"
    and "\<not> isdigit (remove_char CHR '','' (remove_char CHR ''.''
           (dict_get (volume_24h price) ''0'')))"
  shows "generate_accurate_investment_recommendation token_data price social =
     \<lparr>rec_recommendation = STRONG_AVOID, rec_score = 0,
      rec_risk_level = ''Extremely High'',
      rec_reasons = [No_verified_mentions, No_notable_accounts, Unknown_liquidity,
                     Unknown_volume],
      rec_analysis_quality = ''High - Based on verified data'',
      rec_confidence = ''Low''\<rparr>"
proof -
  have s: "social_analysis social (0, []) = (0, [No_verified_mentions])"
    using assms(1) by (simp add: social_analysis_def)
  have n: "notable_analysis social (0, [No_verified_mentions]) =
      (0, [No_verified_mentions, No_notable_accounts])"
    using assms(2) by (simp add: notable_analysis_def)
  have l: "liquidity_analysis price (0, [No_verified_mentions, No_notable_accounts]) =
      Inr (0, [No_verified_mentions, No_notable_accounts, Unknown_liquidity])"
    using assms(3) by (simp add: liquidity_analysis_def)
  have v: "volume_analysis price
      (0, [No_verified_mentions, No_notable_accounts, Unknown_liquidity]) =
      Inr (0, [No_verified_mentions, No_notable_accounts, Unknown_liquidity, Unknown_volume])"
    using assms(4) by (simp add: volume_analysis_def)
  have m: "market_analysis price (0, [No_verified_mentions, No_notable_accounts]) =
      (0, [No_verified_mentions, No_notable_accounts, Unknown_liquidity, Unknown_volume])"
    by (simp add: market_analysis_def l v)
  show ?thesis
    by (simp add: generate_accurate_investment_recommendation_def s n m)
qed

theorem total_failure_recommendation_witness:
  "analyze_verified_social_engagement [] test_contract [] = Inr no_mentions_summary \<and>
   authentic_mentions no_mentions_summary = 0 \<and>
   notable_accounts no_mentions_summary = [] \<and>
   liquidity create_fallback_price_data = Some ''Unknown'' \<and>
   volume_24h create_fallback_price_data = Some ''Unknown'' \<and>
   generate_accurate_investment_recommendation (create_fallback_token_info test_contract)
     create_fallback_price_data no_mentions_summary =
     \<lparr>rec_recommendation = STRONG_AVOID, rec_score = 0,
      rec_risk_level = ''Extremely High'',
      rec_reasons = [No_verified_mentions, No_notable_accounts, Unknown_liquidity,
                     Unknown_volume],
      rec_analysis_quality = ''High - Based on verified data'',
      rec_confidence = ''Low''\<rparr>"
proof -
  have z: "analyze_verified_social_engagement [] test_contract [] = Inr no_mentions_summary"
    by (simp add: analyze_verified_social_engagement_def no_mentions_summary_def)
  have a: "authentic_mentions no_mentions_summary = 0"
    by (simp add: no_mentions_summary_def)
  have b: "notable_accounts no_mentions_summary = []"
    by (simp add: no_mentions_summary_def)
  have c: "liquidity create_fallback_price_data = Some ''Unknown''"
    "volume_24h create_fallback_price_data = Some ''Unknown''"
    by (simp_all add: create_fallback_price_data_def)
  have d: "\<not> isdigit (remove_char CHR '','' (remove_char CHR ''.''
           (dict_get (liquidity create_fallback_price_data) ''0'')))"
    by code_simp
  have e: "\<not> isdigit (remove_char CHR '','' (remove_char CHR ''.''
           (dict_get (volume_24h create_fallback_price_data) ''0'')))"
    by code_simp
  show ?thesis
    using total_failure_recommendation [OF a b d e, of "create_fallback_token_info test_contract"]
      z a b c
    by simp
qed

subsection \<open>Source resolver\<close>

lemma resolve_loop_failure:
  "provider_result http ca src = None \<Longrightarrow>
     resolve_loop http ca (src # sources) requested =
       resolve_loop http ca sources (requested @ [source_url src])"
  by (auto simp: provider_result_def Let_def
      split: fetch.splits option.splits sum.splits if_splits)

lemma resolve_loop_success:
  "provider_result http ca src = Some info \<Longrightarrow>
     resolve_loop http ca (src # sources) requested = (Some info, requested @ [source_url src])"
  by (auto simp: provider_result_def Let_def
      split: fetch.splits option.splits sum.splits if_splits)

lemma resolve_first_success:
  "i < length sources \<Longrightarrow>
   (\<forall>j<i. provider_result http ca (sources ! j) = None) \<Longrightarrow>
   provider_result http ca (sources ! i) = Some info \<Longrightarrow>
   resolve_loop http ca sources requested =
     (Some info, requested @ map source_url (take (Suc i) sources))"
proof (induction sources arbitrary: i requested)
  case Nil
  then show ?case by simp
next
  case (Cons src sources)
  show ?case
  proof (cases i)
    case 0
    with Cons.prems have "provider_result http ca src = Some info" by simp
    then show ?thesis using 0 by (simp add: resolve_loop_success del: resolve_loop.simps)
  next
    case (Suc k)
    from Cons.prems(2) Suc have first: "provider_result http ca src = None"
      by (metis nth_Cons_0 zero_less_Suc)
    have rest: "\<forall>j<k. provider_result http ca (sources ! j) = None"
      using Cons.prems(2) Suc by (metis Suc_less_eq nth_Cons_Suc)
    have "resolve_loop http ca sources (requested @ [source_url src]) =
        (Some info, (requested @ [source_url src]) @ map source_url (take (Suc k) sources))"
      using Cons.prems(1,3) Suc rest by (intro Cons.IH) simp_all
    then show ?thesis
      using first Suc by (simp add: resolve_loop_failure del: resolve_loop.simps)
  qed
qed

lemma resolve_all_fail:
  "(\<forall>src \<in> set sources. provider_result http ca src = None) \<Longrightarrow>
   resolve_loop http ca sources requested = (None, requested @ map source_url sources)"
proof (induction sources arbitrary: requested)
  case Nil
  then show ?case by simp
next
  case (Cons src sources)
  then show ?case
    by (simp add: resolve_loop_failure del: resolve_loop.simps)
qed

lemma dexscreener_label:
  "parse_dexscreener_token_info data ca = Inr info \<Longrightarrow>
   py_get info ''success'' JNull = Inr flag \<Longrightarrow> py_truthy flag \<Longrightarrow>
   py_get info ''source'' JNull = Inr (JStr ''DexScreener'')"
  by (auto simp: parse_dexscreener_token_info_def and_then_def dict_get_def
      split: sum.splits if_splits)

lemma jupiter_label:
  "parse_jupiter_token_info data ca = Inr info \<Longrightarrow>
   py_get info ''success'' JNull = Inr flag \<Longrightarrow> py_truthy flag \<Longrightarrow>
   py_get info ''source'' JNull = Inr (JStr ''Jupiter'')"
  by (auto simp: parse_jupiter_token_info_def and_then_def dict_get_def
      split: sum.splits if_splits)

lemma solscan_label:
  "parse_solscan_token_info data ca = Inr info \<Longrightarrow>
   py_get info ''source'' JNull = Inr (JStr ''Solscan'')"
  by (auto simp: parse_solscan_token_info_def and_then_def dict_get_def
      split: sum.splits if_splits)

lemma provider_result_parsed:
  "provider_result http ca src = Some info \<Longrightarrow>
   \<exists>data flag. source_parser src data ca = Inr info \<and>
     py_get info ''success'' JNull = Inr flag \<and> py_truthy flag"
  by (auto simp: provider_result_def split: fetch.splits option.splits sum.splits if_splits)

lemma token_source_label:
  assumes "i < 3" "provider_result http ca (token_sources ca ! i) = Some info"
  shows "py_get info ''source'' JNull = Inr (JStr ([''DexScreener'', ''Jupiter'', ''Solscan''] ! i))"
proof -
  obtain data flag where p: "source_parser (token_sources ca ! i) data ca = Inr info"
    "py_get info ''success'' JNull = Inr flag" "py_truthy flag"
    using provider_result_parsed [OF assms(2)] by blast
  from assms(1) consider "i = 0" | "i = 1" | "i = 2" by linarith
  then show ?thesis
  proof cases
    case 1
    with p show ?thesis by (simp add: token_sources_def dexscreener_label)
  next
    case 2
    with p show ?thesis by (simp add: token_sources_def jupiter_label)
  next
    case 3
    with p show ?thesis by (simp add: token_sources_def solscan_label)
  qed
qed


text \<open>
  Claim C7, as the code has it. For every list of providers and every network, if provider
  \<open>i\<close> is the first that succeeds (all before it fail by a transport error, a status other
  than 200, a body that does not decode, an exception in the parser or a result whose
  \<open>success\<close> is false), the loop returns the result of provider \<open>i\<close> and has fetched the
  URLs of the providers up to \<open>i\<close>, once each and in order, and of none after it. For the
  three providers of the repository the \<open>source\<close> field of that result is the label its
  parser writes, \<open>DexScreener\<close>, \<open>Jupiter\<close> or \<open>Solscan\<close>; the list names the second
  provider \<open>Jupiter API\<close>.
\<close>

theorem resolver_short_circuit:
  "(i < length sources \<and> (\<forall>j<i. provider_result http ca (sources ! j) = None) \<and>
      provider_result http ca (sources ! i) = Some info \<longrightarrow>
      resolve_loop http ca sources [] = (Some info, map source_url (take (Suc i) sources))) \<and>
   (k < 3 \<and> (\<forall>j<k. provider_result http ca (token_sources ca ! j) = None) \<and>
      provider_result http ca (token_sources ca ! k) = Some info' \<longrightarrow>
      get_token_info_from_multiple_sources http ca =
        (info', map source_url (take (Suc k) (token_sources ca))) \<and>
      py_get info' ''source'' JNull =
        Inr (JStr ([''DexScreener'', ''Jupiter'', ''Solscan''] ! k)))"
proof (intro conjI impI)
  assume "i < length sources \<and> (\<forall>j<i. provider_result http ca (sources ! j) = None) \<and>
      provider_result http ca (sources ! i) = Some info"
  then show "resolve_loop http ca sources [] =
      (Some info, map source_url (take (Suc i) sources))"
    using resolve_first_success [of i sources http ca info "[]"] by simp
next
  assume h: "k < 3 \<and> (\<forall>j<k. provider_result http ca (token_sources ca ! j) = None) \<and>
      provider_result http ca (token_sources ca ! k) = Some info'"
  have len: "length (token_sources ca) = 3"
    by (simp add: token_sources_def)
  have "resolve_loop http ca (token_sources ca) [] =
      (Some info', map source_url (take (Suc k) (token_sources ca)))"
    using resolve_first_success [of k "token_sources ca" http ca info' "[]"] h len by simp
  then show "get_token_info_from_multiple_sources http ca =
      (info', map source_url (take (Suc k) (token_sources ca)))"
    by (simp add: get_token_info_from_multiple_sources_def)
next
  assume "k < 3 \<and> (\<forall>j<k. provider_result http ca (token_sources ca ! j) = None) \<and>
      provider_result http ca (token_sources ca ! k) = Some info'"
  then show "py_get info' ''source'' JNull =
      Inr (JStr ([''DexScreener'', ''Jupiter'', ''Solscan''] ! k))"
    using token_source_label [of k http ca info'] by simp
qed

theorem resolver_short_circuit_witness:
  "provider_result jupiter_network test_contract (token_sources test_contract ! 0) = None \<and>
   provider_result jupiter_network test_contract (token_sources test_contract ! 1) =
     Some jupiter_info \<and>
   get_token_info_from_multiple_sources jupiter_network test_contract =
     (jupiter_info, map source_url (take 2 (token_sources test_contract))) \<and>
   py_get jupiter_info ''source'' JNull = Inr (JStr ''Jupiter'')"
proof -
  have a: "provider_result jupiter_network test_contract (token_sources test_contract ! 0) = None"
    by code_simp
  have b: "provider_result jupiter_network test_contract (token_sources test_contract ! 1) =
      Some jupiter_info"
    by code_simp
  have c: "\<forall>j<1. provider_result jupiter_network test_contract
      (token_sources test_contract ! j) = None"
    using a by simp
  have d: "(1 :: nat) < 3"
    by simp
  show ?thesis
    using resolver_short_circuit
      [of 0 "[]" jupiter_network test_contract jupiter_info 1 jupiter_info] a b c d
    by (simp add: numeral_2_eq_2)
qed

text \<open>
  The claim as stated (the \<open>source\<close> field equals the label of the provider) fails when the
  second provider is the first to succeed: the list calls it \<open>Jupiter API\<close>, its result
  says \<open>Jupiter\<close>.
\<close>

theorem jupiter_source_differs_from_label:
  "provider_result jupiter_network test_contract (token_sources test_contract ! 0) = None \<and>
   source_name (token_sources test_contract ! 1) = ''Jupiter API'' \<and>
   py_get (fst (get_token_info_from_multiple_sources jupiter_network test_contract))
     ''source'' JNull = Inr (JStr ''Jupiter'') \<and>
   ''Jupiter'' \<noteq> ''Jupiter API''"
  by code_simp

text \<open>
  Claim C8. For every identifier and every network on which every provider fails, the
  resolver returns (it has no exception to raise: each one is taken into the loop) the
  fallback dictionary, after one fetch of each provider: \<open>success\<close> is false, \<open>fallback\<close> is
  true, and the name is \<open>Token\<close>, the first 8 characters of the identifier and three dots,
  a function of the identifier alone.
\<close>

theorem resolver_fallback:
  "((\<forall>src \<in> set sources. provider_result http ca src = None) \<longrightarrow>
      resolve_loop http ca sources [] = (None, map source_url sources)) \<and>
   ((\<forall>src \<in> set (token_sources ca). provider_result http ca src = None) \<longrightarrow>
      get_token_info_from_multiple_sources http ca =
        (create_fallback_token_info ca, map source_url (token_sources ca))) \<and>
   py_get (create_fallback_token_info ca) ''success'' JNull = Inr (JBool False) \<and>
   py_get (create_fallback_token_info ca) ''fallback'' JNull = Inr (JBool True) \<and>
   py_get (create_fallback_token_info ca) ''name'' JNull =
     Inr (JStr (''Token '' @ take 8 ca @ ''...''))"
proof (intro conjI impI)
  assume "\<forall>src \<in> set sources. provider_result http ca src = None"
  then show "resolve_loop http ca sources [] = (None, map source_url sources)"
    using resolve_all_fail [of sources http ca "[]"] by simp
next
  assume "\<forall>src \<in> set (token_sources ca). provider_result http ca src = None"
  then have "resolve_loop http ca (token_sources ca) [] =
      (None, map source_url (token_sources ca))"
    using resolve_all_fail [of "token_sources ca" http ca "[]"] by simp
  then show "get_token_info_from_multiple_sources http ca =
      (create_fallback_token_info ca, map source_url (token_sources ca))"
    by (simp add: get_token_info_from_multiple_sources_def)
qed (simp_all add: create_fallback_token_info_def dict_get_def)

theorem resolver_fallback_witness:
  "list_all (\<lambda>src. provider_result dead_network test_contract src = None)
     (token_sources test_contract) \<and>
   get_token_info_from_multiple_sources dead_network test_contract =
     (create_fallback_token_info test_contract, map source_url (token_sources test_contract)) \<and>
   py_get (create_fallback_token_info test_contract) ''name'' JNull =
     Inr (JStr ''Token GBUxQFRX...'')"
proof -
  have a: "list_all (\<lambda>src. provider_result dead_network test_contract src = None)
     (token_sources test_contract)"
    by (simp add: token_sources_def provider_result_def dead_network_def)
  then have b: "\<forall>src \<in> set (token_sources test_contract).
      provider_result dead_network test_contract src = None"
    by (simp add: list_all_iff)
  have c: "take 8 test_contract = ''GBUxQFRX''"
    by (simp add: test_contract_def)
  show ?thesis
    using resolver_fallback [of "[]" dead_network test_contract] a b c
    by simp
qed

end
